theory Spec2Isabelle
  imports Complex_Main "HOL-Library.Log_Nat"
begin

section \<open>JavaScript values and objects\<close>

text \<open>
  The gateway is TypeScript running on Node. Its types are erased at run time, so a
  \<open>KycSession\<close>, a \<open>Transaction\<close>, a request body and a \<open>Partial<T>\<close> of updates are all
  plain JavaScript objects: finite maps from property names to values. The model keeps
  them that way, so that the object spread \<open>{...a, ...b}\<close> of the storage layer is map
  override \<open>a ++ b\<close>, whatever the properties are.

  A JavaScript \<open>number\<close> is an IEEE-754 binary64 value: a finite rational, an infinity or
  NaN (the sign of zero is not modelled; no operation below tells the two zeros apart).
  A \<open>Date\<close> is its time value in milliseconds.
\<close>

datatype double = Fin rat | PInf | NInf | NaN

datatype jsval =
    JUndefined
  | JNull
  | JBool bool
  | JNum double
  | JStr string
  | JDate int
  | JObj "(string \<times> jsval) list"

type_synonym obj = "string \<rightharpoonup> jsval"

text \<open>Truthiness, as \<open>if (x)\<close> and \<open>!x\<close> and \<open>a || b\<close> test it.\<close>

fun truthy :: "jsval \<Rightarrow> bool" where
  "truthy JUndefined = False"
| "truthy JNull = False"
| "truthy (JBool b) = b"
| "truthy (JNum (Fin x)) = (x \<noteq> 0)"
| "truthy (JNum NaN) = False"
| "truthy (JNum _) = True"
| "truthy (JStr s) = (s \<noteq> [])"
| "truthy (JDate _) = True"
| "truthy (JObj _) = True"

text \<open>Reading a property: a missing property reads as \<open>undefined\<close>.\<close>

definition getProp :: "obj \<Rightarrow> string \<Rightarrow> jsval" where
  "getProp ob k = (case ob k of None \<Rightarrow> JUndefined | Some v \<Rightarrow> v)"

section \<open>The in-memory store (class MemStorage)\<close>

text \<open>
  \<open>MemStorage\<close> holds one \<open>Map<string, T>\<close> per entity and a counter for the ids it
  issues. Every method is modelled as a function from the store to its result and the
  store after the call; \<open>undefined\<close> is \<open>None\<close>.
\<close>

record MemStorage =
  partners :: "string \<rightharpoonup> obj"
  kycSessions :: "string \<rightharpoonup> obj"
  quotes :: "string \<rightharpoonup> obj"
  transactions :: "string \<rightharpoonup> obj"
  webhookEvents :: "string \<rightharpoonup> obj"
  currentId :: nat

definition getKycSessionById :: "MemStorage \<Rightarrow> string \<Rightarrow> obj option" where
  "getKycSessionById st sessionId = kycSessions st sessionId"

definition getTransactionById :: "MemStorage \<Rightarrow> string \<Rightarrow> obj option" where
  "getTransactionById st transactionId = transactions st transactionId"

definition getWebhookEventById :: "MemStorage \<Rightarrow> string \<Rightarrow> obj option" where
  "getWebhookEventById st eventId = webhookEvents st eventId"

definition updateKycSession ::
  "MemStorage \<Rightarrow> string \<Rightarrow> obj \<Rightarrow> obj option \<times> MemStorage" where
  "updateKycSession st sessionId updates =
     (case kycSessions st sessionId of
        None \<Rightarrow> (None, st)
      | Some session \<Rightarrow>
          let updatedSession = session ++ updates
          in (Some updatedSession,
              st\<lparr>kycSessions := (kycSessions st)(sessionId \<mapsto> updatedSession)\<rparr>))"

text \<open>
  The \<open>switch\<close> of \<open>updateKycVerificationStatus\<close>: the properties it puts into
  \<open>updates\<close>. \<open>name\<close> is an optional parameter (\<open>undefined\<close> when left out), and
  \<open>if (name)\<close> lets only a truthy one through. A type that matches no \<open>case\<close> adds
  nothing.
\<close>

definition name_update :: "string \<Rightarrow> jsval \<Rightarrow> obj" where
  "name_update field name = (if truthy name then [field \<mapsto> name] else Map.empty)"

definition verification_updates :: "string \<Rightarrow> bool \<Rightarrow> jsval \<Rightarrow> obj" where
  "verification_updates verificationType verified name =
     (if verificationType = ''aadhaar'' then
        [''aadhaarVerified'' \<mapsto> JBool verified] ++ name_update ''aadhaarName'' name
      else if verificationType = ''pan'' then
        [''panVerified'' \<mapsto> JBool verified] ++ name_update ''panName'' name
      else if verificationType = ''face'' then
        [''faceVerified'' \<mapsto> JBool verified]
      else if verificationType = ''upi'' then
        [''upiVerified'' \<mapsto> JBool verified] ++ name_update ''upiName'' name
      else if verificationType = ''bank'' then
        [''bankVerified'' \<mapsto> JBool verified] ++ name_update ''bankName'' name
      else if verificationType = ''name_match'' then
        [''nameMatchVerified'' \<mapsto> JBool verified] ++ name_update ''verifiedName'' name
      else Map.empty)"

definition updateKycVerificationStatus ::
  "MemStorage \<Rightarrow> string \<Rightarrow> string \<Rightarrow> bool \<Rightarrow> jsval \<Rightarrow> obj option \<times> MemStorage" where
  "updateKycVerificationStatus st sessionId verificationType verified name =
     (case kycSessions st sessionId of
        None \<Rightarrow> (None, st)
      | Some session \<Rightarrow>
          let updates = verification_updates verificationType verified name;
              updatedSession = session ++ updates
          in (Some updatedSession,
              st\<lparr>kycSessions := (kycSessions st)(sessionId \<mapsto> updatedSession)\<rparr>))"

definition updateTransaction ::
  "MemStorage \<Rightarrow> string \<Rightarrow> obj \<Rightarrow> obj option \<times> MemStorage" where
  "updateTransaction st transactionId updates =
     (case transactions st transactionId of
        None \<Rightarrow> (None, st)
      | Some transaction \<Rightarrow>
          let updatedTransaction = transaction ++ updates
          in (Some updatedTransaction,
              st\<lparr>transactions := (transactions st)(transactionId \<mapsto> updatedTransaction)\<rparr>))"

definition updateWebhookEvent ::
  "MemStorage \<Rightarrow> string \<Rightarrow> obj \<Rightarrow> obj option \<times> MemStorage" where
  "updateWebhookEvent st eventId updates =
     (case webhookEvents st eventId of
        None \<Rightarrow> (None, st)
      | Some event \<Rightarrow>
          let updatedEvent = event ++ updates
          in (Some updatedEvent,
              st\<lparr>webhookEvents := (webhookEvents st)(eventId \<mapsto> updatedEvent)\<rparr>))"

text \<open>
  The six verification methods, each with the \<open>verificationType\<close> string of its
  \<open>case\<close> in the \<open>switch\<close> above and the flag and name property that the case
  writes (face liveness records no name).
\<close>

datatype kyc_method = Aadhaar | Pan | Face | Upi | Bank | NameMatch

fun method_tag :: "kyc_method \<Rightarrow> string" where
  "method_tag Aadhaar = ''aadhaar''"
| "method_tag Pan = ''pan''"
| "method_tag Face = ''face''"
| "method_tag Upi = ''upi''"
| "method_tag Bank = ''bank''"
| "method_tag NameMatch = ''name_match''"

fun verified_flag :: "kyc_method \<Rightarrow> string" where
  "verified_flag Aadhaar = ''aadhaarVerified''"
| "verified_flag Pan = ''panVerified''"
| "verified_flag Face = ''faceVerified''"
| "verified_flag Upi = ''upiVerified''"
| "verified_flag Bank = ''bankVerified''"
| "verified_flag NameMatch = ''nameMatchVerified''"

fun recorded_name :: "kyc_method \<Rightarrow> string option" where
  "recorded_name Aadhaar = Some ''aadhaarName''"
| "recorded_name Pan = Some ''panName''"
| "recorded_name Face = None"
| "recorded_name Upi = Some ''upiName''"
| "recorded_name Bank = Some ''bankName''"
| "recorded_name NameMatch = Some ''verifiedName''"

text \<open>A store with one KYC session as \<open>createKycSession\<close> leaves it, Aadhaar then verified.\<close>

definition example_kyc_session :: obj where
  "example_kyc_session =
     [''sessionId'' \<mapsto> JStr ''kyc_001'', ''status'' \<mapsto> JStr ''initiated'',
      ''aadhaarVerified'' \<mapsto> JBool True, ''panVerified'' \<mapsto> JBool False,
      ''faceVerified'' \<mapsto> JBool False, ''upiVerified'' \<mapsto> JBool False,
      ''bankVerified'' \<mapsto> JBool False, ''nameMatchVerified'' \<mapsto> JBool False,
      ''aadhaarName'' \<mapsto> JStr ''John Doe'', ''panName'' \<mapsto> JNull,
      ''upiName'' \<mapsto> JNull, ''bankName'' \<mapsto> JNull, ''verifiedName'' \<mapsto> JNull]"

definition example_store :: MemStorage where
  "example_store =
     \<lparr>partners = Map.empty, kycSessions = [''kyc_001'' \<mapsto> example_kyc_session],
      quotes = Map.empty, transactions = Map.empty, webhookEvents = Map.empty,
      currentId = 2\<rparr>"

section \<open>IEEE-754 binary64 arithmetic\<close>

text \<open>
  The arithmetic of JavaScript numbers: the exact result of an operation is rounded to
  the nearest binary64 value, a tie to the one with the even significand. A rounded
  magnitude of \<open>2 ^ 1024\<close> or more overflows to an infinity; below \<open>2 ^ -1022\<close> the
  values are the multiples of \<open>2 ^ -1074\<close> (the subnormal numbers). \<open>pow2 k\<close> is
  \<open>2 ^ k\<close> for an integer \<open>k\<close>, and \<open>ilog2 x\<close> the exponent of a positive rational
  \<open>x\<close>: \<open>pow2 (ilog2 x) \<le> x < pow2 (ilog2 x + 1)\<close>. A positive \<open>a\<close> is rounded to a
  multiple of \<open>quantum a\<close>, the spacing of the doubles around it. \<open>lit\<close> is a decimal
  literal of the program text.
\<close>

definition pow2 :: "int \<Rightarrow> rat" where
  "pow2 k = (if 0 \<le> k then 2 ^ nat k else 1 / 2 ^ nat (- k))"

definition ilog2 :: "rat \<Rightarrow> int" where
  "ilog2 x =
     (let (p, q) = quotient_of x;
          d = int (floorlog 2 (nat p)) - int (floorlog 2 (nat q))
      in if pow2 d \<le> x then d else d - 1)"

definition round_half_even :: "rat \<Rightarrow> int" where
  "round_half_even y =
     (let f = \<lfloor>y\<rfloor>; d = y - of_int f
      in if d < 1 / 2 then f else if 1 / 2 < d then f + 1 else if even f then f else f + 1)"

definition expo :: "rat \<Rightarrow> int" where
  "expo a = max (ilog2 a) (- 1022)"

definition quantum :: "rat \<Rightarrow> rat" where
  "quantum a = pow2 (expo a - 52)"

definition round_magnitude :: "rat \<Rightarrow> rat" where
  "round_magnitude a = of_int (round_half_even (a / quantum a)) * quantum a"

definition round_double :: "rat \<Rightarrow> double" where
  "round_double x =
     (if x = 0 then Fin 0
      else if 0 < x then
        (if pow2 1024 \<le> round_magnitude x then PInf else Fin (round_magnitude x))
      else
        (if pow2 1024 \<le> round_magnitude (- x) then NInf else Fin (- round_magnitude (- x))))"

fun fmul :: "double \<Rightarrow> double \<Rightarrow> double" where
  "fmul (Fin a) (Fin b) = round_double (a * b)"
| "fmul NaN _ = NaN"
| "fmul _ NaN = NaN"
| "fmul (Fin a) PInf = (if a = 0 then NaN else if 0 < a then PInf else NInf)"
| "fmul (Fin a) NInf = (if a = 0 then NaN else if 0 < a then NInf else PInf)"
| "fmul PInf (Fin b) = (if b = 0 then NaN else if 0 < b then PInf else NInf)"
| "fmul NInf (Fin b) = (if b = 0 then NaN else if 0 < b then NInf else PInf)"
| "fmul PInf PInf = PInf"
| "fmul NInf NInf = PInf"
| "fmul PInf NInf = NInf"
| "fmul NInf PInf = NInf"

fun fsub :: "double \<Rightarrow> double \<Rightarrow> double" where
  "fsub (Fin a) (Fin b) = round_double (a - b)"
| "fsub NaN _ = NaN"
| "fsub _ NaN = NaN"
| "fsub (Fin a) PInf = NInf"
| "fsub (Fin a) NInf = PInf"
| "fsub PInf (Fin b) = PInf"
| "fsub NInf (Fin b) = NInf"
| "fsub PInf PInf = NaN"
| "fsub NInf NInf = NaN"
| "fsub PInf NInf = PInf"
| "fsub NInf PInf = NInf"

fun fdiv :: "double \<Rightarrow> double \<Rightarrow> double" where
  "fdiv (Fin a) (Fin b) =
     (if b = 0 then (if a = 0 then NaN else if 0 < a then PInf else NInf)
      else round_double (a / b))"
| "fdiv NaN _ = NaN"
| "fdiv _ NaN = NaN"
| "fdiv (Fin a) _ = Fin 0"
| "fdiv PInf (Fin b) = (if 0 \<le> b then PInf else NInf)"
| "fdiv NInf (Fin b) = (if 0 \<le> b then NInf else PInf)"
| "fdiv _ _ = NaN"

fun flt :: "double \<Rightarrow> double \<Rightarrow> bool" where
  "flt (Fin a) (Fin b) = (a < b)"
| "flt NaN _ = False"
| "flt _ NaN = False"
| "flt (Fin a) PInf = True"
| "flt NInf (Fin b) = True"
| "flt NInf PInf = True"
| "flt _ _ = False"

definition lit :: "rat \<Rightarrow> double" where
  "lit x = round_double x"

section \<open>What the handlers take from outside\<close>

text \<open>
  The clock, the random generator, the process environment and the built-in functions
  of the platform are inputs of the model. \<open>now\<close> is the time in milliseconds, read
  once for a request. \<open>random36\<close> stands for
  \<open>Math.random().toString(36).substring(2, 8)\<close>, \<open>random36_long\<close> for
  \<open>Math.random().toString(36).substring(2, 15)\<close> and \<open>randomDigits\<close> for
  \<open>Math.random().toString().substring(2, 8)\<close>; \<open>createHmac_sha256_hex secret message\<close>
  for \<open>createHmac('sha256', secret).update(message).digest('hex')\<close>;
  \<open>Object_prototype name\<close> for the property that every plain object inherits under
  that name (\<open>constructor\<close>, \<open>toString\<close> and the like; \<open>None\<close> when there is none).
\<close>

record ext =
  now :: int
  random36 :: string
  random36_long :: string
  randomDigits :: string
  EXCHANGE_RATE_API_KEY :: "string option"
  WEBHOOK_SECRET :: "string option"
  createHmac_sha256_hex :: "string \<Rightarrow> string \<Rightarrow> string"
  JSON_stringify :: "obj \<Rightarrow> string"
  toString :: "jsval \<Rightarrow> string"
  toISOString :: "int \<Rightarrow> string"
  StringToNumber :: "string \<Rightarrow> double"
  parseFloat :: "string \<Rightarrow> double"
  Object_prototype :: "string \<rightharpoonup> jsval"

fun dec_nat :: "nat \<Rightarrow> string" where
  "dec_nat n =
     (if n < 10 then [char_of (48 + n)] else dec_nat (n div 10) @ [char_of (48 + n mod 10)])"

definition dec :: "int \<Rightarrow> string" where
  "dec i = (if i < 0 then CHR ''-'' # dec_nat (nat (- i)) else dec_nat (nat i))"

text \<open>
  \<open>v.k\<close>: reading a property of \<open>null\<close> or \<open>undefined\<close> throws a \<open>TypeError\<close>
  (\<open>None\<close>); a property that an object does not have, and any data property of a
  primitive value, reads as \<open>undefined\<close>.
\<close>

definition member_of :: "jsval \<Rightarrow> string \<Rightarrow> jsval option" where
  "member_of v k =
     (case v of
        JUndefined \<Rightarrow> None
      | JNull \<Rightarrow> None
      | JObj props \<Rightarrow> Some (case map_of props k of None \<Rightarrow> JUndefined | Some w \<Rightarrow> w)
      | _ \<Rightarrow> Some JUndefined)"

definition or_else :: "jsval \<Rightarrow> jsval \<Rightarrow> jsval" where
  "or_else a b = (if truthy a then a else b)"

text \<open>\<open>v.toString()\<close>: a \<open>TypeError\<close> on \<open>null\<close> and \<open>undefined\<close>, the string itself on a string.\<close>

definition js_toString :: "ext \<Rightarrow> jsval \<Rightarrow> string option" where
  "js_toString x v =
     (case v of
        JUndefined \<Rightarrow> None
      | JNull \<Rightarrow> None
      | JStr s \<Rightarrow> Some s
      | _ \<Rightarrow> Some (toString x v))"

text \<open>The string a value is converted to where one is needed (a property key, \<open>parseFloat\<close>).\<close>

definition string_of :: "ext \<Rightarrow> jsval \<Rightarrow> string" where
  "string_of x v = (case v of JStr s \<Rightarrow> s | _ \<Rightarrow> toString x v)"

definition to_number :: "ext \<Rightarrow> jsval \<Rightarrow> double" where
  "to_number x v =
     (case v of
        JUndefined \<Rightarrow> NaN
      | JNull \<Rightarrow> Fin 0
      | JBool b \<Rightarrow> Fin (if b then 1 else 0)
      | JNum d \<Rightarrow> d
      | JStr s \<Rightarrow> StringToNumber x s
      | JDate t \<Rightarrow> Fin (of_int t)
      | JObj _ \<Rightarrow> NaN)"

datatype response = Success obj | Failure nat string

section \<open>The rate provider and the fee calculator\<close>

text \<open>
  What the call to the exchange-rate service comes to: \<open>fetch\<close> or \<open>response.json()\<close>
  rejects (no network, a timeout of the HTTP client, a body that is not JSON), or the
  body parses to a JSON value.
\<close>

datatype fx_fetch = FxRejects | FxParsed jsval

definition fallback_rate :: jsval where
  "fallback_rate = JNum (lit (8340 / 100))"

definition getUsdInrRate :: "ext \<Rightarrow> fx_fetch \<Rightarrow> jsval" where
  "getUsdInrRate x fx =
     (case EXCHANGE_RATE_API_KEY x of
        None \<Rightarrow> fallback_rate
      | Some apiKey \<Rightarrow>
          if apiKey = [] then fallback_rate
          else (case fx of
                  FxRejects \<Rightarrow> fallback_rate
                | FxParsed data \<Rightarrow>
                    (case (member_of data ''result'', member_of data ''conversion_rates'') of
                       (Some result, Some conversion_rates) \<Rightarrow>
                         if result = JStr ''success'' then
                           (let inr = (case member_of conversion_rates ''INR'' of
                                         None \<Rightarrow> JUndefined | Some v \<Rightarrow> v)
                            in if truthy inr then inr else fallback_rate)
                         else fallback_rate
                     | _ \<Rightarrow> fallback_rate)))"

text \<open>
  \<open>generateDepositAddress\<close> reads two object literals under the name of the network.
  \<open>table[name]\<close> is the property of the literal, or else the one it inherits.
\<close>

definition lookup_own_or_inherited :: "ext \<Rightarrow> (string \<times> jsval) list \<Rightarrow> string \<Rightarrow> jsval" where
  "lookup_own_or_inherited x table name =
     (case map_of table name of
        Some v \<Rightarrow> v
      | None \<Rightarrow> (case Object_prototype x name of Some v \<Rightarrow> v | None \<Rightarrow> JUndefined))"

definition addresses :: "(string \<times> jsval) list" where
  "addresses =
     [(''polygon'', JStr ''0x8e1234567890abcdef1234567890abcdef1234567''),
      (''ethereum'', JStr ''0x1234567890abcdef1234567890abcdef12345678''),
      (''bsc'', JStr ''0xabcdef1234567890abcdef1234567890abcdef12''),
      (''solana'', JStr ''9WzDXwBbmkg8ZTbNMqUxvQRAyrZzDsGYdLVL9zYtAWWM'')]"

definition confirmations :: "(string \<times> jsval) list" where
  "confirmations =
     [(''polygon'', JNum (Fin 12)), (''ethereum'', JNum (Fin 12)),
      (''bsc'', JNum (Fin 15)), (''solana'', JNum (Fin 1))]"

definition generateDepositAddress :: "ext \<Rightarrow> string \<Rightarrow> jsval \<times> jsval" where
  "generateDepositAddress x network =
     (or_else (lookup_own_or_inherited x addresses network)
        (lookup_own_or_inherited x addresses ''polygon''),
      or_else (lookup_own_or_inherited x confirmations network) (JNum (Fin 12)))"

record quote_data =
  fxRate :: jsval
  grossInr :: double
  tds :: double
  platformFee :: double
  gst :: double
  netInr :: double
  depositAddress :: jsval
  minConfirmations :: jsval

definition calculateQuote :: "ext \<Rightarrow> fx_fetch \<Rightarrow> double \<Rightarrow> string \<Rightarrow> string \<Rightarrow> quote_data" where
  "calculateQuote x fx amountUsd asset network =
     (let fxRate = getUsdInrRate x fx;
          grossInr = fmul amountUsd (to_number x fxRate);
          tds = fmul grossInr (lit (1 / 100));
          platformFee = fmul grossInr (lit (7 / 1000));
          gst = fmul platformFee (lit (18 / 100));
          netInr = fsub (fsub (fsub grossInr tds) platformFee) gst;
          depositAddress = generateDepositAddress x network
      in \<lparr>fxRate = fxRate, grossInr = grossInr, tds = tds, platformFee = platformFee,
          gst = gst, netInr = netInr, depositAddress = fst depositAddress,
          minConfirmations = snd depositAddress\<rparr>)"

section \<open>Webhook signatures\<close>



text \<open>
  \<open>deliverWebhook\<close> posts the serialized payload with three headers. The request it
  makes is its effect; whether the partner answers is not the gateway's, and the
  handlers ignore the boolean it returns.
\<close>

record webhook_request =
  req_url :: jsval
  req_signature :: string
  req_timestamp :: int
  req_event :: jsval
  req_body :: string

definition deliverWebhook :: "ext \<Rightarrow> jsval \<Rightarrow> obj \<Rightarrow> string \<Rightarrow> webhook_request" where
  "deliverWebhook x webhookUrl payload secret =
     (let payloadString = JSON_stringify x payload;
          signature = createHmac_sha256_hex x secret payloadString
      in \<lparr>req_url = webhookUrl, req_signature = ''sha256='' @ signature,
          req_timestamp = now x div 1000, req_event = getProp payload ''event'',
          req_body = payloadString\<rparr>)"

definition webhook_secret :: "ext \<Rightarrow> string" where
  "webhook_secret x =
     (case WEBHOOK_SECRET x of
        None \<Rightarrow> ''fallback-secret''
      | Some s \<Rightarrow> if s = [] then ''fallback-secret'' else s)"

section \<open>Name matching (routes.ts)\<close>

text \<open>
  A string is a list of 8-bit characters, so the names covered are those whose UTF-16
  code units are below 256 (Latin-1). There \<open>toLowerCase\<close> moves \<open>A\<close> to \<open>Z\<close> and the
  accented capitals U+00C0 to U+00DE, the sign U+00D7 apart, up by 32, and the white
  space of \<open>trim\<close> and of the class \<open>\\s\<close> is the blank, U+0009 to U+000D and U+00A0.
\<close>

definition toLowerCase_char :: "char \<Rightarrow> char" where
  "toLowerCase_char c =
     (let n = (of_char c :: nat)
      in if (65 \<le> n \<and> n \<le> 90) \<or> (192 \<le> n \<and> n \<le> 222 \<and> n \<noteq> 215)
         then char_of (n + 32) else c)"

definition toLowerCase :: "string \<Rightarrow> string" where
  "toLowerCase s = map toLowerCase_char s"

definition is_space :: "char \<Rightarrow> bool" where
  "is_space c = (let n = (of_char c :: nat) in n = 32 \<or> (9 \<le> n \<and> n \<le> 13) \<or> n = 160)"

definition trim :: "string \<Rightarrow> string" where
  "trim s = rev (dropWhile is_space (rev (dropWhile is_space s)))"

text \<open>\<open>s.replace(/\\s+/g, ' ')\<close>: every maximal run of white space becomes one blank.\<close>

function collapse_spaces :: "string \<Rightarrow> string" where
  "collapse_spaces [] = []"
| "collapse_spaces (c # cs) =
     (if is_space c then CHR '' '' # collapse_spaces (dropWhile is_space cs)
      else c # collapse_spaces cs)"
  by pat_completeness auto
termination
  by (relation "measure length") (auto simp: length_dropWhile_le less_Suc_eq_le)

definition clean_name :: "string \<Rightarrow> string" where
  "clean_name name = collapse_spaces (trim (toLowerCase name))"

text \<open>
  \<open>levenshteinDistance\<close> fills a matrix with one row per character of \<open>str2\<close> and one
  column per character of \<open>str1\<close>. Row 0 is \<open>0, 1, \<dots>, str1.length\<close>; row \<open>i\<close> starts
  with \<open>i\<close>, and \<open>fill_row\<close> computes its other cells from left to right out of the
  previous row (\<open>diag\<close> and \<open>up\<close>) and the cell just written (\<open>left\<close>). The result is the
  last cell of the last row.
\<close>

fun fill_row :: "char \<Rightarrow> string \<Rightarrow> nat list \<Rightarrow> nat \<Rightarrow> nat list" where
  "fill_row c2 (c1 # rest1) (diag # up # prev) left =
     (let cell = (if c2 = c1 then diag else min (diag + 1) (min (left + 1) (up + 1)))
      in cell # fill_row c2 rest1 (up # prev) cell)"
| "fill_row c2 _ _ left = []"

definition next_row :: "string \<Rightarrow> nat list \<Rightarrow> nat \<times> char \<Rightarrow> nat list" where
  "next_row str1 prev ic = (case ic of (i, c2) \<Rightarrow> i # fill_row c2 str1 prev i)"

definition levenshteinDistance :: "string \<Rightarrow> string \<Rightarrow> nat" where
  "levenshteinDistance str1 str2 =
     last (foldl (next_row str1) [0 ..< length str1 + 1] (zip [1 ..< length str2 + 1] str2))"

definition calculateNameSimilarity :: "string \<Rightarrow> string \<Rightarrow> double" where
  "calculateNameSimilarity name1 name2 =
     (let maxLength = max (length name1) (length name2)
      in if maxLength = 0 then Fin 1
         else let distance = levenshteinDistance name1 name2
              in fdiv (Fin (of_int (int maxLength - int distance))) (Fin (of_nat maxLength)))"

definition name_match_similarity :: "string \<Rightarrow> string \<Rightarrow> double" where
  "name_match_similarity name1 name2 =
     calculateNameSimilarity (clean_name name1) (clean_name name2)"

text \<open>
  The distance the claim names, for comparison with the matrix above: the Levenshtein
  distance of the first \<open>i\<close> characters of \<open>a\<close> and the first \<open>j\<close> characters of \<open>b\<close>, by
  its recurrence. Turning a prefix into the empty string takes one deletion per
  character; otherwise the last step is a deletion, an insertion, or a substitution
  that costs nothing when the two last characters agree.
\<close>

fun levenshtein_prefixes :: "string \<Rightarrow> string \<Rightarrow> nat \<Rightarrow> nat \<Rightarrow> nat" where
  "levenshtein_prefixes a b 0 j = j"
| "levenshtein_prefixes a b (Suc i) 0 = Suc i"
| "levenshtein_prefixes a b (Suc i) (Suc j) =
     min (levenshtein_prefixes a b i (Suc j) + 1)
       (min (levenshtein_prefixes a b (Suc i) j + 1)
          (levenshtein_prefixes a b i j + (if a ! i = b ! j then 0 else 1)))"

definition levenshtein :: "string \<Rightarrow> string \<Rightarrow> nat" where
  "levenshtein a b = levenshtein_prefixes a b (length a) (length b)"

section \<open>The store of the enhanced routes (storage-mock.ts)\<close>

text \<open>
  The handlers of the enhanced API (routes-enhanced, \<open>registerEnhancedRoutes\<close>) reach
  their store through the module variable \<open>storage\<close>. A handler is therefore modelled
  as a function of the store it is given: a record of the methods it calls, each taking
  the state of the store and giving its result (\<open>None\<close> for \<open>null\<close>) and, where it may
  write, the state after the call.
\<close>

record 's IEnhancedStorage =
  storage_getSessionById :: "'s \<Rightarrow> jsval \<Rightarrow> obj option"
  storage_createQuote :: "'s \<Rightarrow> obj \<Rightarrow> obj \<times> 's"
  storage_getQuoteByReference :: "'s \<Rightarrow> jsval \<Rightarrow> obj option"
  storage_getKycSessionById :: "'s \<Rightarrow> jsval \<Rightarrow> obj option"
  storage_updateKycSession :: "'s \<Rightarrow> jsval \<Rightarrow> obj \<Rightarrow> obj option \<times> 's"
  storage_createTransaction :: "'s \<Rightarrow> obj \<Rightarrow> obj \<times> 's"
  storage_getTransactionById :: "'s \<Rightarrow> jsval \<Rightarrow> obj option"
  storage_updateTransaction :: "'s \<Rightarrow> jsval \<Rightarrow> obj \<Rightarrow> obj option \<times> 's"
  storage_createComplianceLog :: "'s \<Rightarrow> obj \<Rightarrow> 's"

text \<open>
  The store that the module imports and assigns to \<open>storage\<close> is the object
  \<open>mockStorage\<close> of storage-mock.ts, which the module names
  \<open>mockEnhancedStoragePromise\<close> (the import of storage-enhanced.ts is commented out).
  It keeps nothing: every getter builds its answer from its argument and the clock,
  every \<open>create\<close> and \<open>update\<close> returns an object and stores none. Its state is the
  one value of \<open>unit\<close>.
\<close>

definition mock_getSessionById :: "ext \<Rightarrow> jsval \<Rightarrow> obj" where
  "mock_getSessionById x sessionId =
     [''sessionId'' \<mapsto> sessionId, ''partnerId'' \<mapsto> JStr ''partner_12345'',
      ''status'' \<mapsto> JStr ''active'',
      ''callbackUrl'' \<mapsto> JStr ''https://mockpartner.com/callback'',
      ''createdAt'' \<mapsto> JDate (now x), ''updatedAt'' \<mapsto> JDate (now x)]"

definition mock_createQuote :: "ext \<Rightarrow> obj \<Rightarrow> obj" where
  "mock_createQuote x quoteData =
     quoteData ++
       [''quoteReference'' \<mapsto> JStr (''quote_'' @ dec (now x)), ''status'' \<mapsto> JStr ''active'',
        ''createdAt'' \<mapsto> JDate (now x), ''updatedAt'' \<mapsto> JDate (now x)]"

definition mock_getQuoteByReference :: "ext \<Rightarrow> jsval \<Rightarrow> obj" where
  "mock_getQuoteByReference x quoteReference =
     [''quoteReference'' \<mapsto> quoteReference, ''sessionId'' \<mapsto> JStr ''sess_12345'',
      ''status'' \<mapsto> JStr ''active'', ''amount'' \<mapsto> JStr ''100'',
      ''network'' \<mapsto> JStr ''polygon'',
      ''depositAddress'' \<mapsto> JStr ''0x1234567890abcdef1234567890abcdef12345678'',
      ''expiresAt'' \<mapsto> JDate (now x + 15 * 60 * 1000),
      ''createdAt'' \<mapsto> JDate (now x), ''updatedAt'' \<mapsto> JDate (now x)]"

definition mock_getKycSessionById :: "ext \<Rightarrow> jsval \<Rightarrow> obj" where
  "mock_getKycSessionById x sessionId =
     [''sessionId'' \<mapsto> sessionId, ''partnerId'' \<mapsto> JStr ''partner_12345'',
      ''userId'' \<mapsto> JStr ''user_12345'', ''status'' \<mapsto> JStr ''completed'',
      ''createdAt'' \<mapsto> JDate (now x), ''updatedAt'' \<mapsto> JDate (now x)]"

definition mock_updateKycSession :: "jsval \<Rightarrow> obj \<Rightarrow> obj" where
  "mock_updateKycSession sessionId kycData = [''sessionId'' \<mapsto> sessionId] ++ kycData"

definition mock_createTransaction :: "ext \<Rightarrow> obj \<Rightarrow> obj" where
  "mock_createTransaction x transactionData =
     transactionData ++
       [''transactionId'' \<mapsto> JStr (''txn_'' @ dec (now x)),
        ''status'' \<mapsto> JStr ''pending_deposit'',
        ''createdAt'' \<mapsto> JDate (now x), ''updatedAt'' \<mapsto> JDate (now x)]"

definition mock_getTransactionById :: "ext \<Rightarrow> jsval \<Rightarrow> obj" where
  "mock_getTransactionById x transactionId =
     [''transactionId'' \<mapsto> transactionId, ''quoteReference'' \<mapsto> JStr ''quote_12345'',
      ''status'' \<mapsto> JStr ''pending_deposit'', ''network'' \<mapsto> JStr ''polygon'',
      ''depositAddress'' \<mapsto> JStr ''0x1234567890abcdef1234567890abcdef12345678'',
      ''createdAt'' \<mapsto> JDate (now x), ''updatedAt'' \<mapsto> JDate (now x)]"

definition mock_updateTransaction :: "jsval \<Rightarrow> obj \<Rightarrow> obj" where
  "mock_updateTransaction transactionId transactionData =
     [''transactionId'' \<mapsto> transactionId] ++ transactionData"

definition mockStorage :: "ext \<Rightarrow> unit IEnhancedStorage" where
  "mockStorage x =
     \<lparr>storage_getSessionById = (\<lambda>st sessionId. Some (mock_getSessionById x sessionId)),
      storage_createQuote = (\<lambda>st quoteData. (mock_createQuote x quoteData, st)),
      storage_getQuoteByReference =
        (\<lambda>st quoteReference. Some (mock_getQuoteByReference x quoteReference)),
      storage_getKycSessionById = (\<lambda>st sessionId. Some (mock_getKycSessionById x sessionId)),
      storage_updateKycSession =
        (\<lambda>st sessionId kycData. (Some (mock_updateKycSession sessionId kycData), st)),
      storage_createTransaction =
        (\<lambda>st transactionData. (mock_createTransaction x transactionData, st)),
      storage_getTransactionById =
        (\<lambda>st transactionId. Some (mock_getTransactionById x transactionId)),
      storage_updateTransaction =
        (\<lambda>st transactionId transactionData.
           (Some (mock_updateTransaction transactionId transactionData), st)),
      storage_createComplianceLog = (\<lambda>st logData. st)\<rparr>"

section \<open>The handlers of the enhanced routes\<close>

text \<open>
  A handler takes the store, the request body (or query) and the state of the store,
  and gives the response, the state after the request and, where it sends any, the
  webhook requests made. \<open>Success data\<close> is \<open>res.json({success: true, data})\<close>;
  \<open>Failure code error\<close> is \<open>res.status(code).json({success: false, error})\<close>. A
  \<open>TypeError\<close> inside a handler lands in its \<open>catch\<close>, which answers 500. The handlers
  run behind \<open>authenticateApiKey\<close>; the requests below are those it lets through.
\<close>

text \<open>\<open>new Date() > v\<close>: both sides are compared as numbers.\<close>

definition date_after :: "ext \<Rightarrow> jsval \<Rightarrow> bool" where
  "date_after x v = flt (to_number x v) (Fin (of_int (now x)))"

text \<open>
  What a call of \<open>callCashfreeKycApi\<close> comes to: it throws an \<open>Error\<close> with a message, or
  it returns \<open>{status: 'SUCCESS', data}\<close> with the provider's parsed answer \<open>data\<close>.
\<close>

datatype cashfree_call = CfThrows string | CfSuccess jsval

text \<open>GET /api/v1/quotes\<close>

definition quotes_handler ::
  "'s IEnhancedStorage \<Rightarrow> ext \<Rightarrow> fx_fetch \<Rightarrow> 's \<Rightarrow> obj \<Rightarrow> response \<times> 's" where
  "quotes_handler storage x fx st query =
     (let sessionId = getProp query ''sessionId''; asset = getProp query ''asset'';
          network = getProp query ''network''; amountUsd = getProp query ''amountUsd''
      in if \<not> list_all truthy [sessionId, asset, network, amountUsd] then
           (Failure 400 ''sessionId, asset, network, and amountUsd are required'', st)
         else
           (case storage_getSessionById storage st sessionId of
              None \<Rightarrow> (Failure 400 ''Invalid or inactive session'', st)
            | Some session \<Rightarrow>
                if getProp session ''status'' \<noteq> JStr ''active'' then
                  (Failure 400 ''Invalid or inactive session'', st)
                else
                  (let amount = parseFloat x (string_of x amountUsd);
                       quoteData = calculateQuote x fx amount (string_of x asset) (string_of x network)
                   in case js_toString x (fxRate quoteData) of
                        None \<Rightarrow> (Failure 500 ''Quote generation failed'', st)
                      | Some rate \<Rightarrow>
                          (case storage_createQuote storage st
                                  [''sessionId'' \<mapsto> sessionId, ''network'' \<mapsto> network,
                                   ''amount'' \<mapsto> JStr (toString x (JNum amount)),
                                   ''targetChain'' \<mapsto> network, ''targetToken'' \<mapsto> asset,
                                   ''token'' \<mapsto> asset, ''fxRate'' \<mapsto> JStr rate,
                                   ''markupPct'' \<mapsto> JStr ''0.7'',
                                   ''grossINR'' \<mapsto> JStr (toString x (JNum (grossInr quoteData))),
                                   ''commission'' \<mapsto> JStr (toString x (JNum (platformFee quoteData))),
                                   ''gstAmount'' \<mapsto> JStr (toString x (JNum (gst quoteData))),
                                   ''tdsAmount'' \<mapsto> JStr (toString x (JNum (tds quoteData))),
                                   ''estimatedINR'' \<mapsto> JStr (toString x (JNum (netInr quoteData))),
                                   ''depositAddress'' \<mapsto> depositAddress quoteData,
                                   ''minConfirmations'' \<mapsto> minConfirmations quoteData,
                                   ''expiresAt'' \<mapsto> JDate (now x + 15 * 60 * 1000)] of
                             (quote, st') \<Rightarrow>
                               (Success
                                  [''sessionId'' \<mapsto> getProp quote ''sessionId'',
                                   ''quoteId'' \<mapsto> getProp quote ''quoteReference'',
                                   ''asset'' \<mapsto> getProp quote ''token'',
                                   ''network'' \<mapsto> getProp quote ''network'',
                                   ''amountUsd'' \<mapsto> getProp quote ''amount'',
                                   ''fxRate'' \<mapsto> getProp quote ''fxRate'',
                                   ''grossInr'' \<mapsto> getProp quote ''grossINR'',
                                   ''breakdown'' \<mapsto> JObj
                                      [(''tds'', getProp quote ''tdsAmount''),
                                       (''platformFee'', getProp quote ''commission''),
                                       (''gst'', getProp quote ''gstAmount''),
                                       (''netInr'', getProp quote ''estimatedINR'')],
                                   ''depositAddress'' \<mapsto> JObj
                                      [(''network'', getProp quote ''network''),
                                       (''address'', getProp quote ''depositAddress''),
                                       (''minConfirmations'', minConfirmations quoteData)],
                                   ''expiresAt'' \<mapsto> getProp quote ''expiresAt'',
                                   ''status'' \<mapsto> JStr ''active''], st')))))"

text \<open>
  \<open>logComplianceEvent\<close> hands a log record to the store inside a \<open>try\<close> of its own.
\<close>

definition logComplianceEvent ::
  "'s IEnhancedStorage \<Rightarrow> ext \<Rightarrow> 's \<Rightarrow> string \<Rightarrow> (string \<times> jsval) list \<Rightarrow> 's" where
  "logComplianceEvent storage x st eventType data =
     storage_createComplianceLog storage st
       [''logId'' \<mapsto> JStr (''log_'' @ dec (now x) @ ''_'' @ random36 x),
        ''eventType'' \<mapsto> JStr eventType, ''data'' \<mapsto> JObj data]"

text \<open>POST /api/v1/kyc/aadhaar-okyc of the enhanced routes.\<close>

definition last4 :: "string \<Rightarrow> string" where
  "last4 s = drop (length s - 4) s"

definition enhanced_aadhaar_okyc ::
  "'s IEnhancedStorage \<Rightarrow> ext \<Rightarrow> cashfree_call \<Rightarrow> 's \<Rightarrow> obj \<Rightarrow> response \<times> 's" where
  "enhanced_aadhaar_okyc storage x cashfree st body =
     (let sessionId = getProp body ''sessionId''; aadhaarNumber = getProp body ''aadhaarNumber'';
          name = getProp body ''name''; otp = getProp body ''otp''
      in if \<not> list_all truthy [sessionId, aadhaarNumber, otp] then
           (Failure 400 ''sessionId, aadhaarNumber, and otp are required'', st)
         else
           (case storage_getKycSessionById storage st sessionId of
              None \<Rightarrow> (Failure 404 ''KYC session not found'', st)
            | Some session \<Rightarrow>
                (let verificationData = or_else (getProp session ''verificationData'') (JObj []);
                     refId = (case member_of verificationData ''aadhaarRefId'' of
                                None \<Rightarrow> JUndefined | Some v \<Rightarrow> v)
                 in if \<not> truthy refId then
                      (Failure 400 ''No Aadhaar reference ID found. Please generate OTP first.'', st)
                    else
                      (case cashfree of
                         CfThrows message \<Rightarrow> (Failure 500 ''Aadhaar verification failed'', st)
                       | CfSuccess data \<Rightarrow>
                           (case member_of data ''name'' of
                              None \<Rightarrow> (Failure 500 ''Aadhaar verification failed'', st)
                            | Some data_name \<Rightarrow>
                                (case storage_updateKycSession storage st sessionId
                                        [''status'' \<mapsto> JStr ''completed'',
                                         ''aadhaarVerified'' \<mapsto> JBool True,
                                         ''aadhaarName'' \<mapsto> or_else data_name name,
                                         ''verifiedName'' \<mapsto> or_else data_name name,
                                         ''verificationData'' \<mapsto> data] of
                                   (updated, st') \<Rightarrow>
                                     (case aadhaarNumber of
                                        JStr digits \<Rightarrow>
                                          (Success
                                             [''sessionId'' \<mapsto> sessionId,
                                              ''verified'' \<mapsto> JBool True,
                                              ''aadhaar'' \<mapsto> JObj
                                                 [(''verified'', JBool True),
                                                  (''name'', or_else data_name name),
                                                  (''number'', JStr (''XXXX-XXXX-'' @ last4 digits))],
                                              ''completedAt'' \<mapsto> JStr (toISOString x (now x))],
                                           logComplianceEvent storage x st' ''aadhaar_verification''
                                             [(''sessionId'', sessionId),
                                              (''aadhaarNumber'', JStr (''XXXX-XXXX-'' @ last4 digits)),
                                              (''verifiedName'', or_else data_name name),
                                              (''status'', JStr ''success'')])
                                      | _ \<Rightarrow> (Failure 500 ''Aadhaar verification failed'', st'))))))))"


text \<open>
  Both handlers below end with
  \<open>const session = await storage.getSessionById(transaction.quoteReference);
  if (session?.callbackUrl) await deliverWebhook(session.callbackUrl, payload, secret)\<close>.
\<close>

definition notify_session ::
  "'s IEnhancedStorage \<Rightarrow> ext \<Rightarrow> 's \<Rightarrow> jsval \<Rightarrow> obj \<Rightarrow> webhook_request list" where
  "notify_session storage x st sessionKey payload =
     (case storage_getSessionById storage st sessionKey of
        None \<Rightarrow> []
      | Some session \<Rightarrow>
          if truthy (getProp session ''callbackUrl'')
          then [deliverWebhook x (getProp session ''callbackUrl'') payload (webhook_secret x)]
          else [])"

text \<open>POST /api/v1/simulate/deposit\<close>

definition simulate_deposit ::
  "'s IEnhancedStorage \<Rightarrow> ext \<Rightarrow> 's \<Rightarrow> obj \<Rightarrow> response \<times> 's \<times> webhook_request list" where
  "simulate_deposit storage x st body =
     (let transactionId = getProp body ''transactionId''; amount = getProp body ''amount'';
          txHash = getProp body ''txHash''
      in if \<not> list_all truthy [transactionId, amount, txHash] then
           (Failure 400 ''transactionId, amount, and txHash are required'', st, [])
         else
           (case storage_getTransactionById storage st transactionId of
              None \<Rightarrow> (Failure 404 ''Transaction not found'', st, [])
            | Some transaction \<Rightarrow>
                (case storage_updateTransaction storage st transactionId
                        [''status'' \<mapsto> JStr ''deposit_confirmed'',
                         ''depositedAmount'' \<mapsto> amount,
                         ''depositTxHash'' \<mapsto> txHash,
                         ''completedAt'' \<mapsto> JDate (now x)] of
                   (updated, st') \<Rightarrow>
                     (Success
                        [''event'' \<mapsto> JStr ''deposit.detected'',
                         ''sessionId'' \<mapsto> getProp transaction ''quoteReference'',
                         ''transactionId'' \<mapsto> getProp transaction ''transactionId'',
                         ''txHash'' \<mapsto> txHash,
                         ''confirmations'' \<mapsto> JNum (Fin 15)],
                      st',
                      notify_session storage x st' (getProp transaction ''quoteReference'')
                        [''event'' \<mapsto> JStr ''deposit.detected'',
                         ''sessionId'' \<mapsto> getProp transaction ''quoteReference'',
                         ''transactionId'' \<mapsto> getProp transaction ''transactionId'',
                         ''txHash'' \<mapsto> txHash,
                         ''amount'' \<mapsto> amount,
                         ''confirmations'' \<mapsto> JNum (Fin 15),
                         ''network'' \<mapsto> getProp transaction ''network'',
                         ''detectedAt'' \<mapsto> JStr (toISOString x (now x))]))))"


section \<open>The Aadhaar verification of routes.ts, on the in-memory store\<close>

text \<open>
  routes.ts imports \<open>storage\<close> from storage.ts, which exports a \<open>MemStorage\<close> when no
  database is configured. Its handlers are modelled on that store. The keys of its maps
  are the strings that the \<open>create\<close> methods issue, so a lookup with a value that is
  not a string finds nothing.
\<close>

definition padStart3 :: "string \<Rightarrow> string" where
  "padStart3 s = replicate (3 - length s) (CHR ''0'') @ s"

definition createPartner :: "ext \<Rightarrow> MemStorage \<Rightarrow> obj \<Rightarrow> jsval \<Rightarrow> obj \<times> MemStorage" where
  "createPartner x st insertPartner providedApiKey =
     (let id = currentId st;
          partnerId = ''partner_'' @ padStart3 (dec_nat id);
          apiKey = or_else providedApiKey (JStr (''pk_live_'' @ random36_long x));
          partner =
            [''id'' \<mapsto> JNum (Fin (of_nat id)), ''partnerId'' \<mapsto> JStr partnerId,
             ''apiKey'' \<mapsto> apiKey, ''status'' \<mapsto> JStr ''active'',
             ''createdAt'' \<mapsto> JDate (now x), ''environment'' \<mapsto> JStr ''production'']
            ++ insertPartner
            ++ [''webhookUrl'' \<mapsto> or_else (getProp insertPartner ''webhookUrl'') JNull]
      in (partner, st\<lparr>partners := (partners st)(partnerId \<mapsto> partner), currentId := id + 1\<rparr>))"

definition createKycSession :: "ext \<Rightarrow> MemStorage \<Rightarrow> obj \<Rightarrow> obj \<times> MemStorage" where
  "createKycSession x st insertSession =
     (let id = currentId st;
          sessionId = ''kyc_'' @ padStart3 (dec_nat id);
          session =
            [''id'' \<mapsto> JNum (Fin (of_nat id)), ''sessionId'' \<mapsto> JStr sessionId,
             ''status'' \<mapsto> JStr ''initiated'',
             ''createdAt'' \<mapsto> JDate (now x), ''updatedAt'' \<mapsto> JDate (now x),
             ''kycProvider'' \<mapsto> JStr ''cashfree'',
             ''aadhaarVerified'' \<mapsto> JBool False, ''panVerified'' \<mapsto> JBool False,
             ''faceVerified'' \<mapsto> JBool False, ''upiVerified'' \<mapsto> JBool False,
             ''bankVerified'' \<mapsto> JBool False, ''nameMatchVerified'' \<mapsto> JBool False,
             ''aadhaarName'' \<mapsto> JNull, ''panName'' \<mapsto> JNull, ''upiName'' \<mapsto> JNull,
             ''bankName'' \<mapsto> JNull, ''verifiedName'' \<mapsto> JNull,
             ''verificationData'' \<mapsto> JNull,
             ''partnerId'' \<mapsto> getProp insertSession ''partnerId'',
             ''userId'' \<mapsto> getProp insertSession ''userId'',
             ''customerRef'' \<mapsto>
                or_else (getProp insertSession ''customerRef'') (getProp insertSession ''userId''),
             ''documentType'' \<mapsto> getProp insertSession ''documentType'',
             ''documentNumber'' \<mapsto> getProp insertSession ''documentNumber'',
             ''holderName'' \<mapsto> or_else (getProp insertSession ''holderName'') JNull,
             ''methods'' \<mapsto> JNull, ''redirectUrl'' \<mapsto> JNull]
      in (session,
          st\<lparr>kycSessions := (kycSessions st)(sessionId \<mapsto> session), currentId := id + 1\<rparr>))"

text \<open>\<open>s.includes(part)\<close>\<close>

definition string_includes :: "string \<Rightarrow> string \<Rightarrow> bool" where
  "string_includes s part = list_ex (\<lambda>i. take (length part) (drop i s) = part) [0 ..< length s + 1]"

text \<open>
  The \<open>catch\<close> of the two handlers: 403 when the message of the error names the IP
  whitelist, 500 with the handler's own text otherwise.
\<close>

definition caught :: "string \<Rightarrow> string \<Rightarrow> response" where
  "caught message otherwise =
     (if string_includes message ''IP not whitelisted'' then Failure 403 ''IP not whitelisted''
      else Failure 500 otherwise)"

text \<open>
  The own properties that an object spread \<open>{...v}\<close> copies: those of an object, the
  characters of a string under their indices, none of any other value. An object is
  read by the first binding of a name, so the properties written after the spread are
  put in front of it.
\<close>

definition spread :: "jsval \<Rightarrow> (string \<times> jsval) list" where
  "spread v =
     (case v of
        JObj props \<Rightarrow> props
      | JStr s \<Rightarrow> map (\<lambda>i. (dec_nat i, JStr [s ! i])) [0 ..< length s]
      | _ \<Rightarrow> [])"

text \<open>POST /api/v1/kyc/aadhaar/generate-otp\<close>

definition generate_otp ::
  "cashfree_call \<Rightarrow> MemStorage \<Rightarrow> obj \<Rightarrow> response \<times> MemStorage" where
  "generate_otp cashfree st body =
     (let sessionId = getProp body ''sessionId''; aadhaarNumber = getProp body ''aadhaarNumber''
      in if \<not> list_all truthy [sessionId, aadhaarNumber] then
           (Failure 400 ''sessionId and aadhaarNumber are required'', st)
         else
           (case sessionId of
              JStr sid \<Rightarrow>
                (case getKycSessionById st sid of
                   None \<Rightarrow> (Failure 404 ''KYC session not found'', st)
                 | Some session \<Rightarrow>
                     (case cashfree of
                        CfThrows message \<Rightarrow> (caught message ''Internal server error'', st)
                      | CfSuccess data \<Rightarrow>
                          (let currentVerificationData =
                                 or_else (getProp session ''verificationData'') (JObj [])
                           in case member_of data ''ref_id'' of
                                None \<Rightarrow> (Failure 500 ''Internal server error'', st)
                              | Some ref_id \<Rightarrow>
                                  (case updateKycSession st sid
                                          [''verificationData'' \<mapsto> JObj
                                             ((''aadhaarRefId'', ref_id)
                                              # (''aadhaarNumber'', aadhaarNumber)
                                              # spread currentVerificationData)] of
                                     (updated, st') \<Rightarrow>
                                       (Success
                                          [''sessionId'' \<mapsto> sessionId,
                                           ''message'' \<mapsto> JStr
                                              ''OTP sent successfully to registered mobile number'',
                                           ''refId'' \<mapsto> ref_id,
                                           ''maskedMobile'' \<mapsto>
                                              or_else (case member_of data ''mobile'' of
                                                         None \<Rightarrow> JUndefined | Some v \<Rightarrow> v)
                                                (JStr ''XXXX-XXX-XXX'')], st')))))
            | _ \<Rightarrow> (Failure 404 ''KYC session not found'', st)))"

text \<open>POST /api/v1/kyc/aadhaar-okyc\<close>

definition aadhaar_okyc ::
  "ext \<Rightarrow> cashfree_call \<Rightarrow> MemStorage \<Rightarrow> obj \<Rightarrow> response \<times> MemStorage" where
  "aadhaar_okyc x cashfree st body =
     (let sessionId = getProp body ''sessionId''; aadhaarNumber = getProp body ''aadhaarNumber'';
          name = getProp body ''name''; otp = getProp body ''otp''
      in if \<not> list_all truthy [sessionId, aadhaarNumber, name, otp] then
           (Failure 400 ''sessionId, aadhaarNumber, name, and otp are required'', st)
         else
           (case sessionId of
              JStr sid \<Rightarrow>
                (case getKycSessionById st sid of
                   None \<Rightarrow> (Failure 404 ''KYC session not found'', st)
                 | Some session \<Rightarrow>
                     (let verificationData =
                            or_else (getProp session ''verificationData'') (JObj []);
                          refId = (case member_of verificationData ''aadhaarRefId'' of
                                     None \<Rightarrow> JUndefined | Some v \<Rightarrow> v)
                      in if \<not> truthy refId then
                           (Failure 400
                              ''No Aadhaar reference ID found. Please generate OTP first.'', st)
                         else
                           (case cashfree of
                              CfThrows message \<Rightarrow>
                                (caught message ''Verification service error'', st)
                            | CfSuccess data \<Rightarrow>
                                (case member_of data ''name'' of
                                   None \<Rightarrow> (Failure 500 ''Verification service error'', st)
                                 | Some data_name \<Rightarrow>
                                     (case updateKycSession st sid
                                             [''status'' \<mapsto> JStr ''completed'',
                                              ''aadhaarVerified'' \<mapsto> JBool True,
                                              ''aadhaarName'' \<mapsto> or_else data_name name,
                                              ''verifiedName'' \<mapsto> or_else data_name name,
                                              ''verificationData'' \<mapsto> data] of
                                        (updated, st') \<Rightarrow>
                                          (case aadhaarNumber of
                                             JStr digits \<Rightarrow>
                                               (Success
                                                  [''sessionId'' \<mapsto> sessionId,
                                                   ''verified'' \<mapsto> JBool True,
                                                   ''aadhaar'' \<mapsto> JObj
                                                      [(''verified'', JBool True),
                                                       (''name'', or_else data_name name),
                                                       (''number'',
                                                          JStr (''XXXX-XXXX-'' @ last4 digits))],
                                                   ''completedAt'' \<mapsto>
                                                      JStr (toISOString x (now x))], st')
                                           | _ \<Rightarrow>
                                               (Failure 500 ''Verification service error'',
                                                st')))))))
            | _ \<Rightarrow> (Failure 404 ''KYC session not found'', st)))"

section \<open>A concrete environment and store\<close>

text \<open>
  Stand-ins for the platform's functions, enough to run the handlers on examples; the
  general statements below hold for every environment. \<open>toString\<close> knows the numbers
  of the examples: the double nearest to 83.4 is written \<open>83.4\<close>, and so on;
  \<open>JSON_stringify\<close> writes the amount of a payload and nothing else.
\<close>

definition example_ext :: ext where
  "example_ext =
     \<lparr>now = 1700000000000, random36 = ''k3j9x2'', random36_long = ''k3j9x2m4p7q1z'',
      randomDigits = ''482913'',
      EXCHANGE_RATE_API_KEY = None, WEBHOOK_SECRET = Some ''whsec_test'',
      createHmac_sha256_hex = (\<lambda>secret message. ''5f'' @ secret @ message),
      JSON_stringify =
        (\<lambda>payload. case payload ''amount'' of
             Some (JStr amount) \<Rightarrow> ''{\"amount\":\"'' @ amount @ ''\"}''
           | _ \<Rightarrow> ''{}''),
      toString =
        (\<lambda>v. if v = JNum (Fin 100) then ''100''
             else if v = JNum (Fin 8340) then ''8340''
             else if v = JNum (Fin (2934376632208589 / 35184372088832)) then ''83.4''
             else if v = JNum (Fin (8216254570184049 / 140737488355328)) then ''58.38''
             else if v = JNum (Fin (5915703290532515 / 562949953421312)) then ''10.5084''
             else if v = JNum (Fin (9002484109076439 / 1099511627776))
               then ''8187.711600000001''
             else ''[value]''),
      toISOString = (\<lambda>t. ''2023-11-14T22:13:20.000Z''),
      StringToNumber = (\<lambda>s. NaN), parseFloat = (\<lambda>s. Fin 100),
      Object_prototype =
        map_of [(''constructor'', JObj []), (''toString'', JObj []), (''valueOf'', JObj []),
                (''hasOwnProperty'', JObj []), (''isPrototypeOf'', JObj []),
                (''propertyIsEnumerable'', JObj []), (''toLocaleString'', JObj []),
                (''__proto__'', JObj [])]\<rparr>"


definition first_deposit_body :: obj where
  "first_deposit_body =
     [''transactionId'' \<mapsto> JStr ''txn_1'', ''amount'' \<mapsto> JStr ''100'',
      ''txHash'' \<mapsto> JStr ''0xabc'']"

definition second_deposit_body :: obj where
  "second_deposit_body =
     [''transactionId'' \<mapsto> JStr ''txn_1'', ''amount'' \<mapsto> JStr ''250'',
      ''txHash'' \<mapsto> JStr ''0xdef'']"


definition example_quote_query :: obj where
  "example_quote_query =
     [''sessionId'' \<mapsto> JStr ''sess_1'', ''asset'' \<mapsto> JStr ''USDC'',
      ''network'' \<mapsto> JStr ''polygon'', ''amountUsd'' \<mapsto> JStr ''100'']"



definition confirmed_deposit_storage :: "ext \<Rightarrow> unit IEnhancedStorage" where
  "confirmed_deposit_storage x =
     (mockStorage x)\<lparr>storage_getTransactionById :=
        (\<lambda>st transactionId.
           Some ((mock_getTransactionById x transactionId)
                   (''status'' \<mapsto> JStr ''deposit_confirmed'')))\<rparr>"

text \<open>
  A run of the Aadhaar verification of routes.ts on an empty in-memory store: a partner
  is created (the handlers answer only to the API key of a stored partner), then a KYC
  session for it; an OTP is requested, and the OTP is submitted; the provider answers
  both calls.
\<close>

definition empty_store :: MemStorage where
  "empty_store =
     \<lparr>partners = Map.empty, kycSessions = Map.empty, quotes = Map.empty,
      transactions = Map.empty, webhookEvents = Map.empty, currentId = 1\<rparr>"

definition partner_store :: MemStorage where
  "partner_store =
     snd (createPartner example_ext empty_store
            [''name'' \<mapsto> JStr ''Acme'', ''email'' \<mapsto> JStr ''ops@acme.example'',
             ''webhookUrl'' \<mapsto> JUndefined]
            (JStr ''pk_live_5f2a9c1d7e3b4''))"

definition example_insert_session :: obj where
  "example_insert_session =
     [''partnerId'' \<mapsto> JStr ''partner_001'', ''userId'' \<mapsto> JStr ''user_1'',
      ''customerRef'' \<mapsto> JStr ''user_1'', ''documentType'' \<mapsto> JStr ''aadhaar'',
      ''documentNumber'' \<mapsto> JStr ''123456789012'', ''holderName'' \<mapsto> JNull]"

definition example_otp_body :: obj where
  "example_otp_body =
     [''sessionId'' \<mapsto> JStr ''kyc_002'', ''aadhaarNumber'' \<mapsto> JStr ''123456789012'']"

definition example_aadhaar_body :: obj where
  "example_aadhaar_body =
     [''sessionId'' \<mapsto> JStr ''kyc_002'', ''aadhaarNumber'' \<mapsto> JStr ''123456789012'',
      ''name'' \<mapsto> JStr ''John Doe'', ''otp'' \<mapsto> JStr ''123456'']"

definition session_store :: MemStorage where
  "session_store = snd (createKycSession example_ext partner_store example_insert_session)"

definition otp_requested_store :: MemStorage where
  "otp_requested_store =
     snd (generate_otp (CfSuccess (JObj [(''ref_id'', JStr ''ref_77'')])) session_store
            example_otp_body)"

definition aadhaar_submitted_store :: MemStorage where
  "aadhaar_submitted_store =
     snd (aadhaar_okyc example_ext (CfSuccess (JObj [(''name'', JStr ''JOHN DOE'')]))
            otp_requested_store example_aadhaar_body)"

text \<open>
  The ways the rate provider can fail to give a live rate: no API key configured, the
  request or the parsing of its body rejected (which is where a network error and a
  timeout end), a body that is \<open>null\<close>, or a body whose \<open>result\<close> is not \<open>'success'\<close>.
\<close>

definition fx_unavailable :: "ext \<Rightarrow> fx_fetch \<Rightarrow> bool" where
  "fx_unavailable x fx =
     (case EXCHANGE_RATE_API_KEY x of
        None \<Rightarrow> True
      | Some apiKey \<Rightarrow>
          apiKey = [] \<or>
          (case fx of
             FxRejects \<Rightarrow> True
           | FxParsed data \<Rightarrow> member_of data ''result'' \<noteq> Some (JStr ''success'')))"

text \<open>A provider that answers with the rate 83.65.\<close>

definition example_live_ext :: ext where
  "example_live_ext = example_ext\<lparr>EXCHANGE_RATE_API_KEY := Some ''test-key''\<rparr>"

definition example_fx :: fx_fetch where
  "example_fx =
     FxParsed (JObj [(''result'', JStr ''success''),
                     (''conversion_rates'', JObj [(''INR'', JNum (lit (8365 / 100)))])])"

section \<open>Properties of binary64 rounding\<close>

subsection \<open>Powers of two\<close>

lemma pow2_powi: "pow2 k = 2 powi k"
  by (simp add: pow2_def power_int_def field_simps)

lemma pow2_pos [simp]: "0 < pow2 k"
  by (simp add: pow2_powi)

lemma pow2_nonneg [simp]: "0 \<le> pow2 k"
  by (simp add: less_imp_le)

lemma pow2_add: "pow2 (a + b) = pow2 a * pow2 b"
  by (simp add: pow2_powi power_int_add)

lemma pow2_diff: "pow2 (a - b) = pow2 a / pow2 b"
  by (simp add: pow2_powi power_int_diff)

lemma pow2_mono: "a \<le> b \<Longrightarrow> pow2 a \<le> pow2 b"
  by (simp add: pow2_powi power_int_increasing)

lemma pow2_strict_mono: "a < b \<Longrightarrow> pow2 a < pow2 b"
  by (simp add: pow2_powi power_int_strict_increasing)

lemma pow2_le_iff: "pow2 a \<le> pow2 b \<longleftrightarrow> a \<le> b"
  using pow2_mono [of a b] pow2_strict_mono [of b a] by (auto simp: not_le [symmetric])

lemma pow2_less_iff: "pow2 a < pow2 b \<longleftrightarrow> a < b"
  using pow2_mono [of b a] pow2_strict_mono [of a b] by (auto simp: not_less [symmetric])

lemma pow2_nat: "pow2 (int n) = 2 ^ n"
  by (simp add: pow2_def)

lemma pow2_0 [simp]: "pow2 0 = 1"
  by (simp add: pow2_def)

lemma pow2_1 [simp]: "pow2 1 = 2"
  by (simp add: pow2_def)

lemma pow2_Suc: "pow2 (k + 1) = 2 * pow2 k"
  by (simp add: pow2_add)

lemma pow2_is_int: "0 \<le> k \<Longrightarrow> pow2 k = of_int (2 ^ nat k)"
  by (simp add: pow2_def)

subsection \<open>The exponent\<close>

lemma floorlog2_bounds:
  assumes "0 < n"
  shows "2 ^ (floorlog 2 n - 1) \<le> n" "n < 2 ^ floorlog 2 n" "0 < floorlog 2 n"
  using floorlog_bounds [of n 2] assms by (auto simp: floorlog_def)

lemma ilog2_bounds:
  assumes "0 < x"
  shows "pow2 (ilog2 x) \<le> x" and "x < pow2 (ilog2 x + 1)"
proof -
  obtain p q where pq: "quotient_of x = (p, q)"
    by (cases "quotient_of x")
  then have q: "0 < q" and x: "x = of_int p / of_int q"
    by (auto dest: quotient_of_denom_pos quotient_of_div)
  with assms have p: "0 < p"
    by (simp add: zero_less_divide_iff)
  define fp where "fp = floorlog 2 (nat p)"
  define fq where "fq = floorlog 2 (nat q)"
  define d where "d = int fp - int fq"
  have np: "0 < nat p" and nq: "0 < nat q"
    using p q by simp_all
  note bp = floorlog2_bounds [OF np, folded fp_def]
  note bq = floorlog2_bounds [OF nq, folded fq_def]
  have rp: "(2::rat) ^ (fp - 1) \<le> of_int p" "of_int p < (2::rat) ^ fp"
  proof -
    have "of_nat (2 ^ (fp - 1)) \<le> (of_nat (nat p) :: rat)"
      using bp(1) by (simp only: of_nat_le_iff)
    then show "(2::rat) ^ (fp - 1) \<le> of_int p"
      using p by simp
    have "(of_nat (nat p) :: rat) < of_nat (2 ^ fp)"
      using bp(2) by (simp only: of_nat_less_iff)
    then show "of_int p < (2::rat) ^ fp"
      using p by simp
  qed
  have rq: "(2::rat) ^ (fq - 1) \<le> of_int q" "of_int q < (2::rat) ^ fq"
  proof -
    have "of_nat (2 ^ (fq - 1)) \<le> (of_nat (nat q) :: rat)"
      using bq(1) by (simp only: of_nat_le_iff)
    then show "(2::rat) ^ (fq - 1) \<le> of_int q"
      using q by simp
    have "(of_nat (nat q) :: rat) < of_nat (2 ^ fq)"
      using bq(2) by (simp only: of_nat_less_iff)
    then show "of_int q < (2::rat) ^ fq"
      using q by simp
  qed
  have qpos: "(0::rat) < of_int q" using q by simp
  have fp1: "pow2 (int fp - 1) = 2 ^ (fp - 1)" and fq1: "pow2 (int fq - 1) = 2 ^ (fq - 1)"
    using bp(3) bq(3) by (simp_all add: pow2_def nat_diff_distrib')
  have low: "pow2 (d - 1) < x"
  proof -
    have "pow2 (d - 1) * of_int q < pow2 (d - 1) * 2 ^ fq"
      using rq(2) by (simp add: mult_strict_left_mono)
    also have "pow2 (d - 1) * 2 ^ fq = pow2 (int fp - 1)"
      unfolding d_def pow2_nat [symmetric] pow2_add [symmetric] by simp
    also have "\<dots> \<le> of_int p"
      using rp(1) by (simp add: fp1)
    finally show ?thesis
      using qpos by (simp add: x pos_less_divide_eq)
  qed
  have high: "x < pow2 (d + 1)"
  proof -
    have "of_int p < (2::rat) ^ fp" by (rule rp(2))
    also have "(2::rat) ^ fp = pow2 (d + 1) * pow2 (int fq - 1)"
      unfolding pow2_add [symmetric] d_def by (simp add: pow2_nat)
    also have "\<dots> \<le> pow2 (d + 1) * of_int q"
      using rq(1) by (simp add: fq1 mult_left_mono)
    finally show ?thesis
      using qpos by (simp add: x pos_divide_less_eq)
  qed
  have il: "ilog2 x = (if pow2 d \<le> x then d else d - 1)"
    by (simp add: ilog2_def pq d_def fp_def fq_def)
  show "pow2 (ilog2 x) \<le> x"
    using low by (simp add: il less_imp_le)
  show "x < pow2 (ilog2 x + 1)"
    using high by (simp add: il not_le)
qed

lemma ilog2_unique:
  assumes "pow2 k \<le> x" "x < pow2 (k + 1)"
  shows "ilog2 x = k"
proof -
  have pos: "0 < x"
    using assms(1) pow2_pos [of k] by (rule less_le_trans [rotated])
  note b = ilog2_bounds [OF pos]
  have "pow2 k < pow2 (ilog2 x + 1)"
    using assms(1) b(2) by (rule le_less_trans)
  then have 1: "k \<le> ilog2 x"
    by (simp add: pow2_less_iff)
  have "pow2 (ilog2 x) < pow2 (k + 1)"
    using b(1) assms(2) by (rule le_less_trans)
  then have 2: "ilog2 x \<le> k"
    by (simp add: pow2_less_iff)
  from 1 2 show ?thesis by simp
qed

lemma ilog2_ge: "0 < x \<Longrightarrow> pow2 k \<le> x \<Longrightarrow> k \<le> ilog2 x"
proof -
  assume "0 < x" "pow2 k \<le> x"
  then have "pow2 k < pow2 (ilog2 x + 1)"
    using ilog2_bounds(2) [of x] by (simp add: le_less_trans)
  then show ?thesis
    by (simp add: pow2_less_iff)
qed

lemma ilog2_less: "0 < x \<Longrightarrow> x < pow2 k \<Longrightarrow> ilog2 x < k"
proof -
  assume "0 < x" "x < pow2 k"
  then have "pow2 (ilog2 x) < pow2 k"
    using ilog2_bounds(1) [of x] by (simp add: le_less_trans)
  then show ?thesis
    by (simp add: pow2_less_iff)
qed

subsection \<open>Rounding to an integer\<close>

lemma round_half_even_cases:
  "round_half_even y = \<lfloor>y\<rfloor> \<or> round_half_even y = \<lfloor>y\<rfloor> + 1"
  by (simp add: round_half_even_def Let_def)

lemma round_half_even_of_int [simp]: "round_half_even (of_int n) = n"
  by (simp add: round_half_even_def Let_def)

lemma round_half_even_down: "y - of_int \<lfloor>y\<rfloor> < 1 / 2 \<Longrightarrow> round_half_even y = \<lfloor>y\<rfloor>"
  by (simp add: round_half_even_def Let_def)

lemma round_half_even_up: "1 / 2 < y - of_int \<lfloor>y\<rfloor> \<Longrightarrow> round_half_even y = \<lfloor>y\<rfloor> + 1"
  by (simp add: round_half_even_def Let_def)

lemma round_half_even_mono:
  assumes "x \<le> y"
  shows "round_half_even x \<le> round_half_even y"
proof -
  have f: "\<lfloor>x\<rfloor> \<le> \<lfloor>y\<rfloor>"
    using assms by (rule floor_mono)
  show ?thesis
  proof (cases "\<lfloor>x\<rfloor> = \<lfloor>y\<rfloor>")
    case False
    with f have "\<lfloor>x\<rfloor> + 1 \<le> \<lfloor>y\<rfloor>" by simp
    moreover have "round_half_even x \<le> \<lfloor>x\<rfloor> + 1"
      using round_half_even_cases [of x] by auto
    moreover have "\<lfloor>y\<rfloor> \<le> round_half_even y"
      using round_half_even_cases [of y] by auto
    ultimately show ?thesis by linarith
  next
    case True
    then have "x - of_int \<lfloor>x\<rfloor> \<le> y - of_int \<lfloor>y\<rfloor>"
      using assms by simp
    then show ?thesis
      using True by (auto simp: round_half_even_def Let_def)
  qed
qed

lemma round_half_even_ge: "of_int n \<le> y \<Longrightarrow> n \<le> round_half_even y"
  using round_half_even_mono [of "of_int n" y] by simp

lemma round_half_even_le: "y \<le> of_int n \<Longrightarrow> round_half_even y \<le> n"
  using round_half_even_mono [of y "of_int n"] by simp

subsection \<open>Rounding a positive magnitude\<close>

lemma expo_ge: "- 1022 \<le> expo a" and expo_ilog2: "ilog2 a \<le> expo a"
  by (simp_all add: expo_def)

lemma quantum_pos [simp]: "0 < quantum a"
  by (simp add: quantum_def)

lemma quantum_nonneg [simp]: "0 \<le> quantum a"
  by (simp add: quantum_def)

lemma below_next_binade:
  assumes "0 < a"
  shows "a < pow2 (expo a + 1)"
proof -
  have "a < pow2 (ilog2 a + 1)"
    using assms by (rule ilog2_bounds)
  also have "\<dots> \<le> pow2 (expo a + 1)"
    by (simp add: pow2_mono expo_ilog2)
  finally show ?thesis .
qed

lemma quantum_times: "of_int (2 ^ 53) * quantum a = pow2 (expo a + 1)"
  and quantum_times': "of_int (2 ^ 52) * quantum a = pow2 (expo a)"
proof -
  have "pow2 53 * pow2 (expo a - 52) = pow2 (expo a + 1)"
    "pow2 52 * pow2 (expo a - 52) = pow2 (expo a)"
    unfolding pow2_add [symmetric] by (simp_all add: add.commute)
  then show "of_int (2 ^ 53) * quantum a = pow2 (expo a + 1)"
    "of_int (2 ^ 52) * quantum a = pow2 (expo a)"
    by (simp_all add: quantum_def pow2_def)
qed

lemma round_magnitude_nonneg:
  assumes "0 < a"
  shows "0 \<le> round_magnitude a"
proof -
  have "of_int 0 \<le> a / quantum a"
    using assms by (simp add: less_imp_le)
  then have "0 \<le> round_half_even (a / quantum a)"
    by (rule round_half_even_ge)
  then show ?thesis
    by (simp add: round_magnitude_def)
qed

lemma round_magnitude_significand:
  assumes "0 < a"
  shows "round_half_even (a / quantum a) \<le> 2 ^ 53"
proof -
  have "a < of_int (2 ^ 53) * quantum a"
    using below_next_binade [OF assms] by (simp only: quantum_times)
  then have "a / quantum a \<le> of_int (2 ^ 53)"
    by (simp add: pos_divide_le_eq less_imp_le)
  then show ?thesis
    by (rule round_half_even_le)
qed

lemma round_magnitude_upper:
  assumes "0 < a"
  shows "round_magnitude a \<le> pow2 (expo a + 1)"
proof -
  have "of_int (round_half_even (a / quantum a)) \<le> (of_int (2 ^ 53) :: rat)"
    using round_magnitude_significand [OF assms] by (simp only: of_int_le_iff)
  then have "round_magnitude a \<le> of_int (2 ^ 53) * quantum a"
    unfolding round_magnitude_def by (rule mult_right_mono) simp
  then show ?thesis
    by (simp only: quantum_times)
qed

lemma round_magnitude_lower:
  assumes "0 < a" "- 1022 \<le> ilog2 a"
  shows "pow2 (expo a) \<le> round_magnitude a"
proof -
  have e: "expo a = ilog2 a"
    using assms(2) by (simp add: expo_def)
  have "pow2 (expo a) \<le> a"
    unfolding e using assms(1) by (rule ilog2_bounds)
  then have "of_int (2 ^ 52) * quantum a \<le> a"
    by (simp only: quantum_times')
  then have "of_int (2 ^ 52) \<le> a / quantum a"
    by (simp add: pos_le_divide_eq)
  then have "2 ^ 52 \<le> round_half_even (a / quantum a)"
    by (rule round_half_even_ge)
  then have "(of_int (2 ^ 52) :: rat) \<le> of_int (round_half_even (a / quantum a))"
    by (simp only: of_int_le_iff)
  then have "of_int (2 ^ 52) * quantum a \<le> round_magnitude a"
    unfolding round_magnitude_def by (rule mult_right_mono) simp
  then show ?thesis
    by (simp only: quantum_times')
qed

lemma ilog2_mono:
  assumes "0 < a" "a \<le> b"
  shows "ilog2 a \<le> ilog2 b"
proof -
  have "pow2 (ilog2 a) \<le> b"
    using ilog2_bounds(1) [OF assms(1)] assms(2) by (rule order_trans)
  with assms show ?thesis
    by (intro ilog2_ge) simp_all
qed

lemma expo_mono: "0 < a \<Longrightarrow> a \<le> b \<Longrightarrow> expo a \<le> expo b"
  using ilog2_mono [of a b] by (simp add: expo_def)

lemma round_magnitude_mono:
  assumes "0 < a" "a \<le> b"
  shows "round_magnitude a \<le> round_magnitude b"
proof (cases "expo a = expo b")
  case True
  then have q: "quantum a = quantum b"
    by (simp add: quantum_def)
  have "a / quantum b \<le> b / quantum b"
    using assms(2) by (simp add: divide_right_mono)
  then have "round_half_even (a / quantum b) \<le> round_half_even (b / quantum b)"
    by (rule round_half_even_mono)
  then have "(of_int (round_half_even (a / quantum b)) :: rat)
      \<le> of_int (round_half_even (b / quantum b))"
    by (simp only: of_int_le_iff)
  then show ?thesis
    unfolding round_magnitude_def q by (rule mult_right_mono) simp
next
  case False
  have b: "0 < b" using assms by simp
  from False expo_mono [OF assms] have lt: "expo a + 1 \<le> expo b"
    by simp
  then have "- 1022 < expo b"
    using expo_ge [of a] by simp
  then have "- 1022 \<le> ilog2 b"
    by (simp add: expo_def split: if_splits)
  then have "pow2 (expo b) \<le> round_magnitude b"
    using b by (intro round_magnitude_lower)
  moreover have "round_magnitude a \<le> pow2 (expo a + 1)"
    using assms(1) by (rule round_magnitude_upper)
  moreover have "pow2 (expo a + 1) \<le> pow2 (expo b)"
    using lt by (rule pow2_mono)
  ultimately show ?thesis by linarith
qed

subsection \<open>Representable numbers\<close>

lemma round_magnitude_exact:
  assumes n: "0 < n" "n < 2 ^ 53" and k: "- 1074 \<le> k"
  shows "round_magnitude (of_int n * pow2 k) = of_int n * pow2 k"
proof -
  let ?y = "of_int n * pow2 k :: rat"
  have pos: "0 < ?y"
    using n(1) by simp
  have "(of_int n :: rat) < of_int (2 ^ 53)"
    using n(2) by (simp only: of_int_less_iff)
  then have "?y < of_int (2 ^ 53) * pow2 k"
    by (rule mult_strict_right_mono) simp
  also have "of_int (2 ^ 53) * pow2 k = pow2 53 * pow2 k"
    by (simp add: pow2_def [of 53])
  also have "\<dots> = pow2 (k + 53)"
    unfolding pow2_add [symmetric] by (simp add: add.commute)
  finally have "ilog2 ?y < k + 53"
    using pos by (intro ilog2_less)
  then have j: "expo ?y - 52 \<le> k"
    using k by (simp add: expo_def)
  define j where "j = expo ?y - 52"
  define d where "d = nat (k - j)"
  have kd: "k = j + int d"
    using j by (simp add: d_def j_def)
  have "pow2 (j + int d) = pow2 j * 2 ^ d"
    by (simp add: pow2_add pow2_nat)
  then have "pow2 k = pow2 j * 2 ^ d"
    by (simp only: kd [symmetric])
  define Q where "Q = quantum ?y"
  have Qpos: "0 < Q"
    by (simp add: Q_def)
  have q: "pow2 k = Q * of_int (2 ^ d)"
    using \<open>pow2 k = pow2 j * 2 ^ d\<close> by (simp add: Q_def quantum_def j_def)
  have "of_int n * (Q * of_int (2 ^ d)) / Q = of_int (n * 2 ^ d)"
    using Qpos by simp
  then have "round_half_even (of_int n * (Q * of_int (2 ^ d)) / Q) = n * 2 ^ d"
    by (simp only: round_half_even_of_int)
  then have "of_int (round_half_even (of_int n * (Q * of_int (2 ^ d)) / Q)) * Q
      = of_int n * (Q * of_int (2 ^ d))"
    by simp
  then have "of_int (round_half_even (of_int n * pow2 k / Q)) * Q = of_int n * pow2 k"
    by (simp only: q [symmetric])
  then show ?thesis
    by (simp only: round_magnitude_def Q_def)
qed

lemma round_magnitude_pow2:
  assumes "- 1074 \<le> k"
  shows "round_magnitude (pow2 k) = pow2 k"
  using round_magnitude_exact [of 1 k] assms by simp

lemma round_double_neg: "x \<noteq> 0 \<Longrightarrow> round_double (- x) =
    (case round_double x of Fin y \<Rightarrow> Fin (- y) | PInf \<Rightarrow> NInf | NInf \<Rightarrow> PInf | NaN \<Rightarrow> NaN)"
  by (simp add: round_double_def not_less less_le antisym)

lemma round_double_exact:
  assumes n: "\<bar>n\<bar> < 2 ^ 53" and k: "- 1074 \<le> k"
    and fin: "\<bar>of_int n * pow2 k\<bar> < pow2 1024"
  shows "round_double (of_int n * pow2 k) = Fin (of_int n * pow2 k)"
proof -
  consider "n = 0" | "0 < n" | "n < 0" by linarith
  then show ?thesis
  proof cases
    case 1
    then show ?thesis by (simp add: round_double_def)
  next
    case 2
    with n have "round_magnitude (of_int n * pow2 k) = of_int n * pow2 k"
      by (intro round_magnitude_exact k) simp_all
    moreover have "0 < (of_int n :: rat) * pow2 k"
      using 2 by simp
    ultimately show ?thesis
      using fin by (simp add: round_double_def not_le)
  next
    case 3
    with n have "round_magnitude (of_int (- n) * pow2 k) = of_int (- n) * pow2 k"
      by (intro round_magnitude_exact k) simp_all
    moreover have "(of_int n :: rat) * pow2 k < 0"
      using 3 by (simp add: mult_neg_pos)
    ultimately show ?thesis
      using fin by (simp add: round_double_def not_le not_less less_imp_le abs_if
          split: if_splits)
  qed
qed

lemma round_magnitude_idem:
  assumes "0 < a"
  shows "round_magnitude (round_magnitude a) = round_magnitude a \<or> round_magnitude a = 0"
proof -
  define m where "m = round_half_even (a / quantum a)"
  have rm: "round_magnitude a = of_int m * pow2 (expo a - 52)"
    by (simp add: round_magnitude_def m_def quantum_def)
  have m53: "m \<le> 2 ^ 53"
    unfolding m_def using assms by (rule round_magnitude_significand)
  have "of_int 0 \<le> a / quantum a"
    using assms by (simp add: less_imp_le)
  then have m0: "0 \<le> m"
    unfolding m_def by (rule round_half_even_ge)
  have k: "- 1074 \<le> expo a - 52"
    using expo_ge [of a] by simp
  consider "m = 0" | "0 < m" "m < 2 ^ 53" | "m = 2 ^ 53"
    using m0 m53 by linarith
  then show ?thesis
  proof cases
    case 1
    then show ?thesis by (simp add: rm)
  next
    case 2
    then show ?thesis
      unfolding rm using k by (intro disjI1 round_magnitude_exact)
  next
    case 3
    have "of_int m * pow2 (expo a - 52) = pow2 53 * pow2 (expo a - 52)"
      by (simp add: 3 pow2_def [of 53])
    also have "\<dots> = pow2 (expo a + 1)"
      unfolding pow2_add [symmetric] by (simp add: add.commute)
    finally have "round_magnitude a = pow2 (expo a + 1)"
      by (simp add: rm)
    moreover have "- 1074 \<le> expo a + 1"
      using expo_ge [of a] by simp
    ultimately show ?thesis
      by (simp add: round_magnitude_pow2)
  qed
qed

lemma round_double_idem:
  assumes "round_double x = Fin y"
  shows "round_double y = Fin y"
proof -
  consider "x = 0" | "0 < x" | "x < 0" by linarith
  then show ?thesis
  proof cases
    case 1
    with assms show ?thesis by (simp add: round_double_def)
  next
    case 2
    with assms have y: "y = round_magnitude x" and fin: "round_magnitude x < pow2 1024"
      by (auto simp: round_double_def split: if_splits)
    have "0 \<le> y"
      unfolding y using 2 by (rule round_magnitude_nonneg)
    with round_magnitude_idem [OF 2] fin show ?thesis
      by (auto simp: round_double_def y [symmetric] not_le less_le)
  next
    case 3
    then have pos: "0 < - x" by simp
    from 3 assms have y: "y = - round_magnitude (- x)"
      and fin: "round_magnitude (- x) < pow2 1024"
      by (auto simp: round_double_def split: if_splits)
    have "0 \<le> round_magnitude (- x)"
      using pos by (rule round_magnitude_nonneg)
    with round_magnitude_idem [OF pos] fin show ?thesis
      by (auto simp: round_double_def y not_le less_le)
  qed
qed

lemma representable_pos:
  assumes "round_double y = Fin y" "0 < y"
  shows "round_magnitude y = y" "y < pow2 1024"
  using assms by (auto simp: round_double_def split: if_splits)

lemma representable_neg:
  assumes "round_double y = Fin y" "y < 0"
  shows "round_magnitude (- y) = - y" "- y < pow2 1024"
  using assms by (auto simp: round_double_def split: if_splits)

lemma round_double_between:
  assumes zx: "z \<le> x" and xy: "x \<le> y"
    and z: "round_double z = Fin z" and y: "round_double y = Fin y"
  shows "\<exists>r. round_double x = Fin r \<and> z \<le> r \<and> r \<le> y"
proof -
  consider "x = 0" | "0 < x" | "x < 0" by linarith
  then show ?thesis
  proof cases
    case 1
    with zx xy show ?thesis by (simp add: round_double_def)
  next
    case 2
    with xy have ypos: "0 < y" by simp
    have "round_magnitude x \<le> round_magnitude y"
      using 2 xy by (rule round_magnitude_mono)
    then have up: "round_magnitude x \<le> y" and fin: "round_magnitude x < pow2 1024"
      using representable_pos [OF y ypos] by simp_all
    have low: "z \<le> round_magnitude x"
    proof (cases "0 < z")
      case True
      have "round_magnitude z \<le> round_magnitude x"
        using True zx by (rule round_magnitude_mono)
      then show ?thesis
        using representable_pos [OF z True] by simp
    next
      case False
      then show ?thesis
        using round_magnitude_nonneg [OF 2] by simp
    qed
    show ?thesis
      using 2 up fin low by (simp add: round_double_def not_le)
  next
    case 3
    then have pos: "0 < - x" by simp
    from 3 zx have zneg: "z < 0" by simp
    have "round_magnitude (- x) \<le> round_magnitude (- z)"
      using pos zx by (intro round_magnitude_mono) simp_all
    then have low: "z \<le> - round_magnitude (- x)" and fin: "round_magnitude (- x) < pow2 1024"
      using representable_neg [OF z zneg] by simp_all
    have up: "- round_magnitude (- x) \<le> y"
    proof (cases "y < 0")
      case True
      then have "0 < - y" by simp
      then have "round_magnitude (- y) \<le> round_magnitude (- x)"
        using xy by (intro round_magnitude_mono) simp_all
      then show ?thesis
        using representable_neg [OF y True] by simp
    next
      case False
      then show ?thesis
        using round_magnitude_nonneg [OF pos] by simp
    qed
    show ?thesis
      using 3 up fin low by (simp add: round_double_def not_le not_less less_imp_le)
  qed
qed

lemma round_double_zero [simp]: "round_double 0 = Fin 0"
  by (simp add: round_double_def)

lemma round_double_pow2:
  assumes "- 1074 \<le> k" "k < 1024"
  shows "round_double (pow2 k) = Fin (pow2 k)"
  using round_double_exact [of 1 k] assms by (simp add: pow2_less_iff)

lemma round_half_even_near:
  assumes "\<bar>y - of_int m\<bar> < 1 / 2"
  shows "round_half_even y = m"
proof (cases "of_int m \<le> y")
  case True
  with assms have "\<lfloor>y\<rfloor> = m"
    by (intro floor_unique) (simp_all add: abs_if split: if_splits)
  with assms True show ?thesis
    by (simp add: round_half_even_def Let_def abs_if split: if_splits)
next
  case False
  with assms have f: "\<lfloor>y\<rfloor> = m - 1"
    by (intro floor_unique) (simp_all add: abs_if split: if_splits)
  have "1 / 2 < y - of_int (m - 1)"
    using assms False by (simp add: abs_if split: if_splits)
  then show ?thesis
    by (simp add: round_half_even_def Let_def f)
qed

subsection \<open>Evaluating a rounding\<close>

text \<open>
  With the exponent \<open>k\<close> and the significand \<open>m\<close> of the result at hand, a rounding is
  checked by arithmetic on numerals.
\<close>

lemma round_double_eval:
  assumes low: "pow2 k \<le> x" and high: "x < pow2 (k + 1)" and k: "- 1022 \<le> k"
    and m: "\<bar>x / pow2 (k - 52) - of_int m\<bar> < 1 / 2"
    and fin: "of_int m * pow2 (k - 52) < pow2 1024"
  shows "round_double x = Fin (of_int m * pow2 (k - 52))"
proof -
  have pos: "0 < x"
    using pow2_pos low by (rule less_le_trans)
  have "ilog2 x = k"
    using low high by (rule ilog2_unique)
  then have "expo x = k"
    using k by (simp add: expo_def)
  moreover have "round_half_even (x / pow2 (k - 52)) = m"
    using m by (rule round_half_even_near)
  ultimately have "round_magnitude x = of_int m * pow2 (k - 52)"
    by (simp add: round_magnitude_def quantum_def)
  then show ?thesis
    using pos fin by (simp add: round_double_def not_le)
qed

lemma lit_fx: "lit (8365 / 100) = Fin (2943172725230797 / 35184372088832)"
  unfolding lit_def using round_double_eval [of 6 "8365 / 100" 5886345450461594]
  by (simp add: pow2_def)

lemma lit_c1: "lit (1 / 100) = Fin (5764607523034235 / 576460752303423488)"
  unfolding lit_def using round_double_eval [of "- 7" "1 / 100" 5764607523034235]
  by (simp add: pow2_def)

lemma lit_c7: "lit (7 / 1000) = Fin (8070450532247929 / 1152921504606846976)"
  unfolding lit_def using round_double_eval [of "- 8" "7 / 1000" 8070450532247929]
  by (simp add: pow2_def)

lemma lit_c18: "lit (18 / 100) = Fin (3242591731706757 / 18014398509481984)"
  unfolding lit_def using round_double_eval [of "- 3" "18 / 100" 6485183463413514]
  by (simp add: pow2_def)

lemma lit_p: "lit (58555 / 1000) = Fin (8240883630646231 / 140737488355328)"
  unfolding lit_def using round_double_eval [of 5 "58555 / 1000" 8240883630646231]
  by (simp add: pow2_def)

lemma lit_s: "lit (105399 / 10000) = Fin (2966718107032643 / 281474976710656)"
  unfolding lit_def using round_double_eval [of 3 "105399 / 10000" 5933436214065286]
  by (simp add: pow2_def)

lemma lit_n: "lit (82122551 / 10000) = Fin (4514734986356379 / 549755813888)"
  unfolding lit_def using round_double_eval [of 13 "82122551 / 10000" 4514734986356379]
  by (simp add: pow2_def)

lemma example_gross:
  "fmul (Fin 100) (Fin (2943172725230797 / 35184372088832)) = Fin 8365"
  using round_double_eval [of 13 "100 * (2943172725230797 / 35184372088832)" 4598707383173120]
  by (simp add: pow2_def)

lemma example_tds:
  "fmul (Fin 8365) (Fin (5764607523034235 / 576460752303423488))
     = Fin (2943172725230797 / 35184372088832)"
  using round_double_eval [of 6 "8365 * (5764607523034235 / 576460752303423488)" 5886345450461594]
  by (simp add: pow2_def)

lemma example_fee:
  "fmul (Fin 8365) (Fin (8070450532247929 / 1152921504606846976))
     = Fin (8240883630646231 / 140737488355328)"
  using round_double_eval [of 5 "8365 * (8070450532247929 / 1152921504606846976)" 8240883630646231]
  by (simp add: pow2_def)

lemma example_gst:
  "fmul (Fin (8240883630646231 / 140737488355328)) (Fin (3242591731706757 / 18014398509481984))
     = Fin (2966718107032643 / 281474976710656)"
  using round_double_eval [of 3
      "8240883630646231 / 140737488355328 * (3242591731706757 / 18014398509481984)"
      5933436214065286]
  by (simp add: pow2_def)

lemma example_net:
  "fsub (Fin 8365) (Fin (2943172725230797 / 35184372088832))
     = Fin (4552720309341389 / 549755813888)"
  "fsub (Fin (4552720309341389 / 549755813888)) (Fin (8240883630646231 / 140737488355328))
     = Fin (4520529357659177 / 549755813888)"
  "fsub (Fin (4520529357659177 / 549755813888)) (Fin (2966718107032643 / 281474976710656))
     = Fin (4514734986356379 / 549755813888)"
  using round_double_eval [of 13 "8365 - 2943172725230797 / 35184372088832" 4552720309341389]
    round_double_eval [of 13
      "4552720309341389 / 549755813888 - 8240883630646231 / 140737488355328" 4520529357659177]
    round_double_eval [of 13
      "4520529357659177 / 549755813888 - 2966718107032643 / 281474976710656" 4514734986356379]
  by (simp_all add: pow2_def)

lemma round_double_overflow:
  assumes "pow2 1024 \<le> x"
  shows "round_double x = PInf"
proof -
  have pos: "0 < x"
    using pow2_pos assms by (rule less_le_trans)
  have "round_magnitude (pow2 1024) \<le> round_magnitude x"
    using assms by (intro round_magnitude_mono) simp_all
  then have "pow2 1024 \<le> round_magnitude x"
    by (simp add: round_magnitude_pow2)
  with pos show ?thesis
    by (simp add: round_double_def)
qed

subsection \<open>The deductions of a quote\<close>

text \<open>
  For a gross amount \<open>g\<close> in the normal range, with exponent \<open>e\<close>: the three charges
  are at most \<open>2 ^ (e - 5)\<close>, the TDS is at least \<open>2 ^ (e - 7)\<close>, which is more than the
  spacing \<open>2 ^ (e - 52)\<close> of the doubles below \<open>g\<close>; so the first difference rounds to a
  double below \<open>g\<close>, and the next two do not go up again, nor below \<open>2 ^ (e - 3)\<close>.
\<close>

lemma pow2_shift:
  "pow2 (e - 1) = pow2 e / 2" "pow2 (e - 2) = pow2 e / 4" "pow2 (e - 3) = pow2 e / 8"
  "pow2 (e - 5) = pow2 e / 32" "pow2 (e - 7) = pow2 e / 128" "pow2 (e + 1) = pow2 e * 2"
  by (simp_all add: pow2_diff pow2_add pow2_def [of 1] pow2_def [of 2] pow2_def [of 3]
      pow2_def [of 5] pow2_def [of 7])

lemma representable_predecessor:
  assumes rep: "round_double g = Fin g" and normal: "pow2 (- 1022) \<le> g"
  shows "round_double (g - pow2 (ilog2 g - 52)) = Fin (g - pow2 (ilog2 g - 52))"
proof -
  define e where "e = ilog2 g"
  define U where "U = pow2 (e - 52)"
  have gpos: "0 < g"
    using pow2_pos normal by (rule less_le_trans)
  have e_lo: "- 1022 \<le> e"
    unfolding e_def using gpos normal by (rule ilog2_ge)
  have ex: "expo g = e"
    using e_lo by (simp add: expo_def e_def)
  have q: "quantum g = U"
    by (simp add: quantum_def ex U_def)
  define N where "N = round_half_even (g / U)"
  have gN: "g = of_int N * U"
    using representable_pos(1) [OF rep gpos] by (simp add: round_magnitude_def q N_def)
  have Upos: "0 < U" by (simp add: U_def)
  have "of_int N * U < pow2 (e + 1)"
    unfolding gN [symmetric] e_def using gpos by (rule ilog2_bounds)
  also have "pow2 (e + 1) = pow2 53 * U"
    unfolding U_def pow2_add [symmetric] by (simp add: add.commute)
  finally have "(of_int N :: rat) < pow2 53"
    using Upos by simp
  then have "(of_int N :: rat) < of_int (2 ^ 53)"
    by (simp add: pow2_def [of 53])
  then have N_hi: "N < 2 ^ 53"
    by (simp only: of_int_less_iff)
  have "0 < (of_int N :: rat) * U"
    using gpos by (simp only: gN [symmetric])
  then have "0 < (of_int N :: rat)"
    using Upos by (simp add: zero_less_mult_iff)
  then have N_lo: "0 < N" by simp
  have eq: "g - U = of_int (N - 1) * U"
    by (simp add: gN algebra_simps)
  have "\<bar>of_int (N - 1) * U\<bar> \<le> g"
    using N_lo Upos unfolding eq [symmetric] by (simp add: gN abs_mult algebra_simps)
  also have "g < pow2 1024"
    using rep gpos by (rule representable_pos)
  finally have fin: "\<bar>of_int (N - 1) * pow2 (e - 52)\<bar> < pow2 1024"
    by (simp add: U_def)
  have "round_double (of_int (N - 1) * pow2 (e - 52)) = Fin (of_int (N - 1) * pow2 (e - 52))"
    using N_lo N_hi e_lo fin by (intro round_double_exact) simp_all
  then show ?thesis
    by (simp add: eq [unfolded U_def] e_def [symmetric])
qed

lemma quote_arithmetic:
  assumes rep: "round_double g = Fin g" and normal: "pow2 (- 1022) \<le> g"
  shows "\<exists>t p s d1 d2 n.
           fmul (Fin g) (lit (1 / 100)) = Fin t
         \<and> fmul (Fin g) (lit (7 / 1000)) = Fin p
         \<and> fmul (Fin p) (lit (18 / 100)) = Fin s
         \<and> fsub (Fin g) (Fin t) = Fin d1
         \<and> fsub (Fin d1) (Fin p) = Fin d2
         \<and> fsub (Fin d2) (Fin s) = Fin n
         \<and> 0 < t \<and> 0 \<le> p \<and> 0 \<le> s \<and> 0 < n \<and> n < g"
proof -
  define e where "e = ilog2 g"
  define P where "P = pow2 e"
  define U where "U = pow2 (e - 52)"
  have gpos: "0 < g"
    using pow2_pos normal by (rule less_le_trans)
  have Ppos: "0 < P" by (simp add: P_def)
  have gP: "P \<le> g" "g < P * 2"
    using ilog2_bounds [OF gpos] by (simp_all add: P_def e_def pow2_shift)
  have e_lo: "- 1022 \<le> e"
    unfolding e_def using gpos normal by (rule ilog2_ge)
  have "g < pow2 1024"
    using rep gpos by (rule representable_pos)
  then have e_hi: "e < 1024"
    unfolding e_def using gpos by (intro ilog2_less)
  have R: "round_double (pow2 j) = Fin (pow2 j)" if "e - 52 \<le> j" "j \<le> e" for j
    using that e_lo e_hi by (intro round_double_pow2) simp_all
  note sh = pow2_shift [of e, folded P_def]
  have UP: "U \<le> P / 128"
    using pow2_mono [of "e - 52" "e - 7"] by (simp add: U_def sh)
  have Upos: "0 < U" by (simp add: U_def)
  have repU: "round_double (g - U) = Fin (g - U)"
    using representable_predecessor [OF rep normal] by (simp add: U_def e_def)
  have rep0: "round_double 0 = Fin 0" by simp
  let ?c1 = "5764607523034235 / 576460752303423488 :: rat"
  let ?c7 = "8070450532247929 / 1152921504606846976 :: rat"
  let ?c18 = "3242591731706757 / 18014398509481984 :: rat"
  have t_lo: "pow2 (e - 7) \<le> g * ?c1"
  proof -
    have "P * (1 / 128) \<le> g * ?c1"
      using gP(1) Ppos by (intro mult_mono) simp_all
    then show ?thesis by (simp add: sh)
  qed
  have t_hi: "g * ?c1 \<le> pow2 (e - 5)"
  proof -
    have "g * ?c1 \<le> (P * 2) * (1 / 64)"
      using gP(2) gpos by (intro mult_mono) simp_all
    then show ?thesis by (simp add: sh)
  qed
  obtain t where t: "round_double (g * ?c1) = Fin t" "pow2 (e - 7) \<le> t" "t \<le> pow2 (e - 5)"
    using round_double_between [OF t_lo t_hi R R] by auto
  have p_lo: "0 \<le> g * ?c7"
    using gpos by simp
  have p_hi: "g * ?c7 \<le> pow2 (e - 5)"
  proof -
    have "g * ?c7 \<le> (P * 2) * (1 / 64)"
      using gP(2) gpos by (intro mult_mono) simp_all
    then show ?thesis by (simp add: sh)
  qed
  obtain p where p: "round_double (g * ?c7) = Fin p" "0 \<le> p" "p \<le> pow2 (e - 5)"
    using round_double_between [OF p_lo p_hi rep0 R] by auto
  have s_lo: "0 \<le> p * ?c18"
    using p(2) by simp
  have s_hi: "p * ?c18 \<le> pow2 (e - 5)"
  proof -
    have "p * ?c18 \<le> pow2 (e - 5) * 1"
      using p(2,3) by (intro mult_mono) simp_all
    then show ?thesis by simp
  qed
  obtain s where s: "round_double (p * ?c18) = Fin s" "0 \<le> s" "s \<le> pow2 (e - 5)"
    using round_double_between [OF s_lo s_hi rep0 R] by auto
  have tP: "P / 128 \<le> t" "t \<le> P / 32" and pP: "p \<le> P / 32" and sP: "s \<le> P / 32"
    using t(2,3) p(3) s(3) by (simp_all add: sh)
  have d1_lo: "pow2 (e - 1) \<le> g - t"
    using gP(1) tP(2) Ppos by (simp add: sh)
  have d1_hi: "g - t \<le> g - U"
    using UP tP(1) by simp
  obtain d1 where d1: "round_double (g - t) = Fin d1" "pow2 (e - 1) \<le> d1" "d1 \<le> g - U"
    using round_double_between [OF d1_lo d1_hi R repU] by auto
  have rep1: "round_double d1 = Fin d1"
    using d1(1) by (rule round_double_idem)
  have d2_lo: "pow2 (e - 2) \<le> d1 - p"
    using d1(2) pP Ppos by (simp add: sh)
  have d2_hi: "d1 - p \<le> d1"
    using p(2) by simp
  obtain d2 where d2: "round_double (d1 - p) = Fin d2" "pow2 (e - 2) \<le> d2" "d2 \<le> d1"
    using round_double_between [OF d2_lo d2_hi R rep1] by auto
  have rep2: "round_double d2 = Fin d2"
    using d2(1) by (rule round_double_idem)
  have n_lo: "pow2 (e - 3) \<le> d2 - s"
    using d2(2) sP Ppos by (simp add: sh)
  have n_hi: "d2 - s \<le> d2"
    using s(2) by simp
  obtain n where n: "round_double (d2 - s) = Fin n" "pow2 (e - 3) \<le> n" "n \<le> d2"
    using round_double_between [OF n_lo n_hi R rep2] by auto
  have tpos: "0 < t"
    using t(2) pow2_pos [of "e - 7"] by (rule less_le_trans [rotated])
  have npos: "0 < n"
    using n(2) pow2_pos [of "e - 3"] by (rule less_le_trans [rotated])
  have nlt: "n < g"
    using n(3) d2(3) d1(3) Upos by simp
  have ft: "fmul (Fin g) (lit (1 / 100)) = Fin t"
    unfolding lit_c1 fmul.simps by (rule t(1))
  have fp: "fmul (Fin g) (lit (7 / 1000)) = Fin p"
    unfolding lit_c7 fmul.simps by (rule p(1))
  have fs: "fmul (Fin p) (lit (18 / 100)) = Fin s"
    unfolding lit_c18 fmul.simps by (rule s(1))
  have f1: "fsub (Fin g) (Fin t) = Fin d1"
    unfolding fsub.simps by (rule d1(1))
  have f2: "fsub (Fin d1) (Fin p) = Fin d2"
    unfolding fsub.simps by (rule d2(1))
  have f3: "fsub (Fin d2) (Fin s) = Fin n"
    unfolding fsub.simps by (rule n(1))
  show ?thesis
    by (intro exI [of _ t] exI [of _ p] exI [of _ s] exI [of _ d1] exI [of _ d2] exI [of _ n]
        conjI ft fp fs f1 f2 f3 tpos p(2) s(2) npos nlt)
qed

section \<open>Properties of the in-memory store\<close>

lemma verification_updates_other_flag:
  "a \<noteq> b \<Longrightarrow> verification_updates (method_tag b) verified name (verified_flag a) = None"
  by (cases a; cases b; simp add: verification_updates_def name_update_def)

lemma verification_updates_other_name:
  "a \<noteq> b \<Longrightarrow> recorded_name a = Some f \<Longrightarrow>
     verification_updates (method_tag b) verified name f = None"
  by (cases a; cases b; simp add: verification_updates_def name_update_def; force)

lemma verification_updates_own_only:
  "k \<noteq> verified_flag b \<Longrightarrow> recorded_name b \<noteq> Some k \<Longrightarrow>
     verification_updates (method_tag b) verified name k = None"
  by (cases b; simp add: verification_updates_def name_update_def)

lemma updateKycVerificationStatus_found:
  "kycSessions st sessionId = Some session \<Longrightarrow>
     updateKycVerificationStatus st sessionId vt verified name =
       (Some (session ++ verification_updates vt verified name),
        st\<lparr>kycSessions := (kycSessions st)(sessionId \<mapsto> session ++ verification_updates vt verified name)\<rparr>)"
  by (simp add: updateKycVerificationStatus_def Let_def)

lemma map_add_untouched: "u k = None \<Longrightarrow> (m ++ u) k = m k"
  by (simp add: map_add_def)

text \<open>
  Claim C6. For every KYC session and every two distinct verification methods \<open>a\<close> and
  \<open>b\<close>, \<open>updateKycVerificationStatus\<close> called for \<open>b\<close> returns and stores a session in
  which the verified flag and the recorded name of \<open>a\<close> are what they were; so a flag
  of \<open>a\<close> that was true stays true. The call changes no property at all other than the
  flag and the name of \<open>b\<close> itself.
\<close>

theorem kyc_update_other_method_unchanged:
  assumes found: "kycSessions st sessionId = Some session"
    and distinct: "a \<noteq> b"
    and call: "updateKycVerificationStatus st sessionId (method_tag b) verified name = (r, st')"
  shows "\<exists>session'. r = Some session' \<and> kycSessions st' sessionId = Some session'
           \<and> session' (verified_flag a) = session (verified_flag a)
           \<and> (\<forall>f. recorded_name a = Some f \<longrightarrow> session' f = session f)
           \<and> (session (verified_flag a) = Some (JBool True) \<longrightarrow>
                session' (verified_flag a) = Some (JBool True))
           \<and> (\<forall>k. k \<noteq> verified_flag b \<and> recorded_name b \<noteq> Some k \<longrightarrow> session' k = session k)"
proof -
  let ?u = "verification_updates (method_tag b) verified name"
  from found call have r: "r = Some (session ++ ?u)"
    and st': "st' = st\<lparr>kycSessions := (kycSessions st)(sessionId \<mapsto> session ++ ?u)\<rparr>"
    by (auto simp add: updateKycVerificationStatus_found)
  have flag: "(session ++ ?u) (verified_flag a) = session (verified_flag a)"
    using distinct by (simp add: map_add_untouched verification_updates_other_flag)
  have nm: "\<forall>f. recorded_name a = Some f \<longrightarrow> (session ++ ?u) f = session f"
    using distinct by (simp add: map_add_untouched verification_updates_other_name)
  have own: "\<forall>k. k \<noteq> verified_flag b \<and> recorded_name b \<noteq> Some k \<longrightarrow> (session ++ ?u) k = session k"
    by (simp add: map_add_untouched verification_updates_own_only)
  from st' have stored: "kycSessions st' sessionId = Some (session ++ ?u)"
    by simp
  show ?thesis
    using r stored flag nm own by simp
qed

text \<open>
  The theorem at a concrete store: Aadhaar is verified with a name, then a PAN result
  (a failed one, with a name) is recorded.
\<close>

theorem kyc_update_other_method_unchanged_witness:
  "\<exists>session'. updateKycVerificationStatus example_store ''kyc_001'' ''pan'' False (JStr ''J DOE'')
        = (Some session', example_store\<lparr>kycSessions := [''kyc_001'' \<mapsto> session']\<rparr>)
     \<and> session' ''aadhaarVerified'' = Some (JBool True)
     \<and> session' ''aadhaarName'' = Some (JStr ''John Doe'')
     \<and> session' ''panVerified'' = Some (JBool False)
     \<and> session' ''panName'' = Some (JStr ''J DOE'')"
proof -
  have found: "kycSessions example_store ''kyc_001'' = Some example_kyc_session"
    by (simp add: example_store_def)
  have distinct: "Aadhaar \<noteq> Pan" by simp
  obtain r st' where call:
    "updateKycVerificationStatus example_store ''kyc_001'' (method_tag Pan) False (JStr ''J DOE'') = (r, st')"
    by (cases "updateKycVerificationStatus example_store ''kyc_001'' (method_tag Pan) False (JStr ''J DOE'')")
  from kyc_update_other_method_unchanged [OF found distinct call]
  obtain session' where s: "r = Some session'" "kycSessions st' ''kyc_001'' = Some session'"
    "session' (verified_flag Aadhaar) = example_kyc_session (verified_flag Aadhaar)"
    "\<forall>f. recorded_name Aadhaar = Some f \<longrightarrow> session' f = example_kyc_session f"
    by blast
  have own: "session' ''panVerified'' = Some (JBool False)" "session' ''panName'' = Some (JStr ''J DOE'')"
    using call s(1) found
    by (auto simp add: updateKycVerificationStatus_found verification_updates_def name_update_def)
  have st'_eq: "st' = example_store\<lparr>kycSessions := [''kyc_001'' \<mapsto> session']\<rparr>"
    using call s(1) found
    by (auto simp add: updateKycVerificationStatus_found example_store_def)
  have "session' ''aadhaarVerified'' = Some (JBool True)"
    "session' ''aadhaarName'' = Some (JStr ''John Doe'')"
    using s(3,4) by (simp_all add: example_kyc_session_def)
  with own st'_eq call s(1) show ?thesis by simp
qed

text \<open>
  Claim C10. Each of \<open>updateKycSession\<close>, \<open>updateKycVerificationStatus\<close>,
  \<open>updateTransaction\<close> and \<open>updateWebhookEvent\<close>, called with an id that its map does
  not hold, returns \<open>undefined\<close> and leaves the whole store as it was: no record is
  changed and none is created.
\<close>

theorem update_unknown_id_not_found:
  "(kycSessions st i = None \<longrightarrow>
       updateKycSession st i updates = (None, st)
     \<and> updateKycVerificationStatus st i verificationType verified name = (None, st))
   \<and> (transactions st i = None \<longrightarrow> updateTransaction st i updates = (None, st))
   \<and> (webhookEvents st i = None \<longrightarrow> updateWebhookEvent st i updates = (None, st))"
  by (simp add: updateKycSession_def updateKycVerificationStatus_def updateTransaction_def
      updateWebhookEvent_def)

text \<open>The theorem at the example store and an id it does not hold.\<close>

theorem update_unknown_id_not_found_witness:
  "updateKycSession example_store ''kyc_404'' [''status'' \<mapsto> JStr ''completed''] = (None, example_store)
   \<and> updateKycVerificationStatus example_store ''kyc_404'' ''pan'' True (JStr ''J DOE'') = (None, example_store)
   \<and> updateTransaction example_store ''kyc_404'' [''status'' \<mapsto> JStr ''completed''] = (None, example_store)
   \<and> updateWebhookEvent example_store ''kyc_404'' [''status'' \<mapsto> JStr ''completed''] = (None, example_store)
   \<and> kycSessions example_store ''kyc_404'' = None"
  using update_unknown_id_not_found [of example_store "''kyc_404''"
      "[''status'' \<mapsto> JStr ''completed'']" "''pan''" True "JStr ''J DOE''"]
  by (simp add: example_store_def)

section \<open>Properties of the enhanced routes\<close>

subsection \<open>Reading properties\<close>

lemma getProp_empty [simp]: "getProp Map.empty k = JUndefined"
  by (simp add: getProp_def)

lemma getProp_upd [simp]: "getProp (m(k \<mapsto> v)) k' = (if k' = k then v else getProp m k')"
  by (simp add: getProp_def)

lemma getProp_add: "getProp (m ++ n) k = (case n k of None \<Rightarrow> getProp m k | Some v \<Rightarrow> v)"
  by (simp add: getProp_def map_add_def split: option.split)

subsection \<open>The imported store\<close>

lemma mockStorage_calls [simp]:
  "storage_getSessionById (mockStorage x) st k = Some (mock_getSessionById x k)"
  "storage_getQuoteByReference (mockStorage x) st k = Some (mock_getQuoteByReference x k)"
  "storage_getKycSessionById (mockStorage x) st k = Some (mock_getKycSessionById x k)"
  "storage_getTransactionById (mockStorage x) st k = Some (mock_getTransactionById x k)"
  "storage_createQuote (mockStorage x) st d = (mock_createQuote x d, st)"
  "storage_createTransaction (mockStorage x) st d = (mock_createTransaction x d, st)"
  "storage_updateKycSession (mockStorage x) st k d = (Some (mock_updateKycSession k d), st)"
  "storage_updateTransaction (mockStorage x) st k d = (Some (mock_updateTransaction k d), st)"
  "storage_createComplianceLog (mockStorage x) st d = st"
  by (simp_all add: mockStorage_def)

lemma mock_session_fields [simp]:
  "getProp (mock_getSessionById x k) ''status'' = JStr ''active''"
  "getProp (mock_getSessionById x k) ''callbackUrl'' = JStr ''https://mockpartner.com/callback''"
  "getProp (mock_getSessionById x k) ''sessionId'' = k"
  by (simp_all add: mock_getSessionById_def getProp_def)

lemma mock_quote_fields [simp]:
  "getProp (mock_getQuoteByReference x k) ''status'' = JStr ''active''"
  "getProp (mock_getQuoteByReference x k) ''expiresAt'' = JDate (now x + 15 * 60 * 1000)"
  "getProp (mock_getQuoteByReference x k) ''amount'' = JStr ''100''"
  "getProp (mock_getQuoteByReference x k) ''depositAddress''
     = JStr ''0x1234567890abcdef1234567890abcdef12345678''"
  by (simp_all add: mock_getQuoteByReference_def getProp_def)

lemma mock_kyc_fields [simp]:
  "getProp (mock_getKycSessionById x k) ''status'' = JStr ''completed''"
  "getProp (mock_getKycSessionById x k) ''userId'' = JStr ''user_12345''"
  "getProp (mock_getKycSessionById x k) ''verificationData'' = JUndefined"
  by (simp_all add: mock_getKycSessionById_def getProp_def)

lemma mock_transaction_fields [simp]:
  "getProp (mock_getTransactionById x k) ''status'' = JStr ''pending_deposit''"
  "getProp (mock_getTransactionById x k) ''quoteReference'' = JStr ''quote_12345''"
  "getProp (mock_getTransactionById x k) ''transactionId'' = k"
  "getProp (mock_getTransactionById x k) ''network'' = JStr ''polygon''"
  by (simp_all add: mock_getTransactionById_def getProp_def)

lemma mock_createTransaction_fields [simp]:
  "getProp (mock_createTransaction x d) ''transactionId'' = JStr (''txn_'' @ dec (now x))"
  "getProp (mock_createTransaction x d) ''status'' = JStr ''pending_deposit''"
  "getProp (mock_createTransaction x d) ''createdAt'' = JDate (now x)"
  "getProp (mock_createTransaction x d) ''quoteReference'' = getProp d ''quoteReference''"
  "getProp (mock_createTransaction x d) ''network'' = getProp d ''network''"
  "getProp (mock_createTransaction x d) ''depositAddress'' = getProp d ''depositAddress''"
  "getProp (mock_createTransaction x d) ''expectedAmount'' = getProp d ''expectedAmount''"
  "getProp (mock_createTransaction x d) ''expiresAt'' = getProp d ''expiresAt''"
  by (simp_all add: mock_createTransaction_def getProp_add)

lemma mock_createQuote_fields [simp]:
  "getProp (mock_createQuote x d) ''quoteReference'' = JStr (''quote_'' @ dec (now x))"
  "getProp (mock_createQuote x d) ''status'' = JStr ''active''"
  "k \<notin> {''quoteReference'', ''status'', ''createdAt'', ''updatedAt''} \<Longrightarrow>
     getProp (mock_createQuote x d) k = getProp d k"
  by (simp_all add: mock_createQuote_def getProp_add)

lemma not_expired_yet [simp]: "0 \<le> d \<Longrightarrow> \<not> date_after x (JDate (now x + d))"
  by (simp add: date_after_def to_number_def)

subsection \<open>Transaction creation\<close>






subsection \<open>Deposit reports and payouts\<close>

lemma notify_session_imported:
  "notify_session (mockStorage x) x st k payload =
     [deliverWebhook x (JStr ''https://mockpartner.com/callback'') payload (webhook_secret x)]"
  by (simp add: notify_session_def)

lemma simulate_deposit_found:
  assumes "list_all truthy [getProp body ''transactionId'', getProp body ''amount'',
             getProp body ''txHash'']"
    and "storage_getTransactionById storage st (getProp body ''transactionId'') = Some transaction"
  shows "simulate_deposit storage x st body =
     (Success
        [''event'' \<mapsto> JStr ''deposit.detected'',
         ''sessionId'' \<mapsto> getProp transaction ''quoteReference'',
         ''transactionId'' \<mapsto> getProp transaction ''transactionId'',
         ''txHash'' \<mapsto> getProp body ''txHash'',
         ''confirmations'' \<mapsto> JNum (Fin 15)],
      snd (storage_updateTransaction storage st (getProp body ''transactionId'')
             [''status'' \<mapsto> JStr ''deposit_confirmed'',
              ''depositedAmount'' \<mapsto> getProp body ''amount'',
              ''depositTxHash'' \<mapsto> getProp body ''txHash'',
              ''completedAt'' \<mapsto> JDate (now x)]),
      notify_session storage x
        (snd (storage_updateTransaction storage st (getProp body ''transactionId'')
             [''status'' \<mapsto> JStr ''deposit_confirmed'',
              ''depositedAmount'' \<mapsto> getProp body ''amount'',
              ''depositTxHash'' \<mapsto> getProp body ''txHash'',
              ''completedAt'' \<mapsto> JDate (now x)]))
        (getProp transaction ''quoteReference'')
        [''event'' \<mapsto> JStr ''deposit.detected'',
         ''sessionId'' \<mapsto> getProp transaction ''quoteReference'',
         ''transactionId'' \<mapsto> getProp transaction ''transactionId'',
         ''txHash'' \<mapsto> getProp body ''txHash'',
         ''amount'' \<mapsto> getProp body ''amount'',
         ''confirmations'' \<mapsto> JNum (Fin 15),
         ''network'' \<mapsto> getProp transaction ''network'',
         ''detectedAt'' \<mapsto> JStr (toISOString x (now x))])"
  using assms by (simp add: simulate_deposit_def Let_def case_prod_beta)

lemma simulate_deposit_imported:
  assumes "list_all truthy [getProp body ''transactionId'', getProp body ''amount'',
             getProp body ''txHash'']"
  shows "simulate_deposit (mockStorage x) x st body =
     (Success
        [''event'' \<mapsto> JStr ''deposit.detected'',
         ''sessionId'' \<mapsto> JStr ''quote_12345'',
         ''transactionId'' \<mapsto> getProp body ''transactionId'',
         ''txHash'' \<mapsto> getProp body ''txHash'',
         ''confirmations'' \<mapsto> JNum (Fin 15)],
      st,
      [deliverWebhook x (JStr ''https://mockpartner.com/callback'')
         [''event'' \<mapsto> JStr ''deposit.detected'',
          ''sessionId'' \<mapsto> JStr ''quote_12345'',
          ''transactionId'' \<mapsto> getProp body ''transactionId'',
          ''txHash'' \<mapsto> getProp body ''txHash'',
          ''amount'' \<mapsto> getProp body ''amount'',
          ''confirmations'' \<mapsto> JNum (Fin 15),
          ''network'' \<mapsto> JStr ''polygon'',
          ''detectedAt'' \<mapsto> JStr (toISOString x (now x))]
         (webhook_secret x)])"
  unfolding simulate_deposit_found [OF assms mockStorage_calls(4)] notify_session_imported
  by simp

lemma example_deposit_fields:
  "list_all truthy [getProp first_deposit_body ''transactionId'',
     getProp first_deposit_body ''amount'', getProp first_deposit_body ''txHash'']"
  "list_all truthy [getProp second_deposit_body ''transactionId'',
     getProp second_deposit_body ''amount'', getProp second_deposit_body ''txHash'']"
  by (simp_all add: first_deposit_body_def second_deposit_body_def)

lemma example_secret: "webhook_secret example_ext = ''whsec_test''"
  by (simp add: webhook_secret_def example_ext_def)

text \<open>
  Claim C3 fails on the code. The handler never reads the status of the transaction:
  whatever store it is given and whatever transaction the store returns, a report with
  its three fields is answered with success, and the store is asked to set the status
  \<open>deposit_confirmed\<close>, the amount and the hash. With the imported store a second
  report for the same transaction, with another amount and another hash, is accepted
  like the first, and a second \<open>deposit.detected\<close> webhook goes out with the new amount.
\<close>

theorem simulate_deposit_accepts_repeated_report:
  "(list_all truthy [getProp body ''transactionId'', getProp body ''amount'',
       getProp body ''txHash'']
     \<and> storage_getTransactionById storage st (getProp body ''transactionId'') = Some transaction
     \<longrightarrow>
       (\<exists>data hooks.
          simulate_deposit storage x st body =
            (Success data,
             snd (storage_updateTransaction storage st (getProp body ''transactionId'')
                    [''status'' \<mapsto> JStr ''deposit_confirmed'',
                     ''depositedAmount'' \<mapsto> getProp body ''amount'',
                     ''depositTxHash'' \<mapsto> getProp body ''txHash'',
                     ''completedAt'' \<mapsto> JDate (now x)]),
             hooks)))
   \<and> simulate_deposit (mockStorage example_ext) example_ext () first_deposit_body =
       (Success
          [''event'' \<mapsto> JStr ''deposit.detected'', ''sessionId'' \<mapsto> JStr ''quote_12345'',
           ''transactionId'' \<mapsto> JStr ''txn_1'', ''txHash'' \<mapsto> JStr ''0xabc'',
           ''confirmations'' \<mapsto> JNum (Fin 15)],
        (),
        [deliverWebhook example_ext (JStr ''https://mockpartner.com/callback'')
           [''event'' \<mapsto> JStr ''deposit.detected'', ''sessionId'' \<mapsto> JStr ''quote_12345'',
            ''transactionId'' \<mapsto> JStr ''txn_1'', ''txHash'' \<mapsto> JStr ''0xabc'',
            ''amount'' \<mapsto> JStr ''100'', ''confirmations'' \<mapsto> JNum (Fin 15),
            ''network'' \<mapsto> JStr ''polygon'',
            ''detectedAt'' \<mapsto> JStr ''2023-11-14T22:13:20.000Z'']
           ''whsec_test''])
   \<and> simulate_deposit (mockStorage example_ext) example_ext
         (fst (snd (simulate_deposit (mockStorage example_ext) example_ext ()
                      first_deposit_body)))
         second_deposit_body =
       (Success
          [''event'' \<mapsto> JStr ''deposit.detected'', ''sessionId'' \<mapsto> JStr ''quote_12345'',
           ''transactionId'' \<mapsto> JStr ''txn_1'', ''txHash'' \<mapsto> JStr ''0xdef'',
           ''confirmations'' \<mapsto> JNum (Fin 15)],
        (),
        [deliverWebhook example_ext (JStr ''https://mockpartner.com/callback'')
           [''event'' \<mapsto> JStr ''deposit.detected'', ''sessionId'' \<mapsto> JStr ''quote_12345'',
            ''transactionId'' \<mapsto> JStr ''txn_1'', ''txHash'' \<mapsto> JStr ''0xdef'',
            ''amount'' \<mapsto> JStr ''250'', ''confirmations'' \<mapsto> JNum (Fin 15),
            ''network'' \<mapsto> JStr ''polygon'',
            ''detectedAt'' \<mapsto> JStr ''2023-11-14T22:13:20.000Z'']
           ''whsec_test''])"
proof (intro conjI impI)
  assume "list_all truthy [getProp body ''transactionId'', getProp body ''amount'',
       getProp body ''txHash'']
     \<and> storage_getTransactionById storage st (getProp body ''transactionId'') = Some transaction"
  then show "\<exists>data hooks.
          simulate_deposit storage x st body =
            (Success data,
             snd (storage_updateTransaction storage st (getProp body ''transactionId'')
                    [''status'' \<mapsto> JStr ''deposit_confirmed'',
                     ''depositedAmount'' \<mapsto> getProp body ''amount'',
                     ''depositTxHash'' \<mapsto> getProp body ''txHash'',
                     ''completedAt'' \<mapsto> JDate (now x)]),
             hooks)"
    using simulate_deposit_found [of body storage st transaction x] by blast
next
  show "simulate_deposit (mockStorage example_ext) example_ext () first_deposit_body =
       (Success
          [''event'' \<mapsto> JStr ''deposit.detected'', ''sessionId'' \<mapsto> JStr ''quote_12345'',
           ''transactionId'' \<mapsto> JStr ''txn_1'', ''txHash'' \<mapsto> JStr ''0xabc'',
           ''confirmations'' \<mapsto> JNum (Fin 15)],
        (),
        [deliverWebhook example_ext (JStr ''https://mockpartner.com/callback'')
           [''event'' \<mapsto> JStr ''deposit.detected'', ''sessionId'' \<mapsto> JStr ''quote_12345'',
            ''transactionId'' \<mapsto> JStr ''txn_1'', ''txHash'' \<mapsto> JStr ''0xabc'',
            ''amount'' \<mapsto> JStr ''100'', ''confirmations'' \<mapsto> JNum (Fin 15),
            ''network'' \<mapsto> JStr ''polygon'',
            ''detectedAt'' \<mapsto> JStr ''2023-11-14T22:13:20.000Z'']
           ''whsec_test''])"
    unfolding simulate_deposit_imported [OF example_deposit_fields(1)] example_secret
    by (simp add: first_deposit_body_def example_ext_def)
next
  show "simulate_deposit (mockStorage example_ext) example_ext
         (fst (snd (simulate_deposit (mockStorage example_ext) example_ext ()
                      first_deposit_body)))
         second_deposit_body =
       (Success
          [''event'' \<mapsto> JStr ''deposit.detected'', ''sessionId'' \<mapsto> JStr ''quote_12345'',
           ''transactionId'' \<mapsto> JStr ''txn_1'', ''txHash'' \<mapsto> JStr ''0xdef'',
           ''confirmations'' \<mapsto> JNum (Fin 15)],
        (),
        [deliverWebhook example_ext (JStr ''https://mockpartner.com/callback'')
           [''event'' \<mapsto> JStr ''deposit.detected'', ''sessionId'' \<mapsto> JStr ''quote_12345'',
            ''transactionId'' \<mapsto> JStr ''txn_1'', ''txHash'' \<mapsto> JStr ''0xdef'',
            ''amount'' \<mapsto> JStr ''250'', ''confirmations'' \<mapsto> JNum (Fin 15),
            ''network'' \<mapsto> JStr ''polygon'',
            ''detectedAt'' \<mapsto> JStr ''2023-11-14T22:13:20.000Z'']
           ''whsec_test''])"
    unfolding simulate_deposit_imported [OF example_deposit_fields(2)] example_secret
    by (simp add: second_deposit_body_def example_ext_def)
qed

text \<open>
  The theorem on a transaction whose deposit is already confirmed: the report is
  accepted all the same.
\<close>

theorem simulate_deposit_accepts_repeated_report_witness:
  "list_all truthy [getProp second_deposit_body ''transactionId'',
     getProp second_deposit_body ''amount'', getProp second_deposit_body ''txHash'']
   \<and> (\<exists>transaction.
         storage_getTransactionById (confirmed_deposit_storage example_ext) ()
           (getProp second_deposit_body ''transactionId'') = Some transaction
       \<and> getProp transaction ''status'' = JStr ''deposit_confirmed'')
   \<and> (\<exists>data hooks.
         simulate_deposit (confirmed_deposit_storage example_ext) example_ext ()
           second_deposit_body = (Success data, (), hooks))"
  using simulate_deposit_accepts_repeated_report
    [of second_deposit_body "confirmed_deposit_storage example_ext" "()"
      "(mock_getTransactionById example_ext (JStr ''txn_1''))
         (''status'' \<mapsto> JStr ''deposit_confirmed'')" example_ext]
  by (simp add: confirmed_deposit_storage_def second_deposit_body_def)







section \<open>Properties of name matching\<close>

subsection \<open>The matrix computes the Levenshtein distance\<close>

text \<open>
  Neighbouring cells of the recurrence differ by at most one. That is why the code may
  take the diagonal cell as it is when the two characters agree.
\<close>

lemma lev_zero [simp]: "levenshtein_prefixes a b i 0 = i"
  by (cases i) simp_all

lemma lev_right: "levenshtein_prefixes a b i (Suc j) \<le> levenshtein_prefixes a b i j + 1"
  by (cases i) simp_all

lemma lev_down: "levenshtein_prefixes a b (Suc i) j \<le> levenshtein_prefixes a b i j + 1"
  by (cases j) simp_all

lemma lev_left: "levenshtein_prefixes a b i j \<le> levenshtein_prefixes a b i (Suc j) + 1"
proof (induction i)
  case 0
  show ?case by simp
next
  case (Suc i)
  have "levenshtein_prefixes a b (Suc i) j \<le> levenshtein_prefixes a b i j + 1"
    by (rule lev_down)
  with Suc show ?case by (simp add: min_def)
qed

lemma lev_up: "levenshtein_prefixes a b i j \<le> levenshtein_prefixes a b (Suc i) j + 1"
proof (induction j)
  case 0
  show ?case by (cases i) simp_all
next
  case (Suc j)
  have "levenshtein_prefixes a b i (Suc j) \<le> levenshtein_prefixes a b i j + 1"
    by (rule lev_right)
  with Suc show ?case by (simp add: min_def)
qed

lemma levenshtein_prefixes_sym:
  "levenshtein_prefixes a b i j = levenshtein_prefixes b a j i"
proof (induction a b i j rule: levenshtein_prefixes.induct)
  case (1 a b j)
  show ?case by (cases j) simp_all
next
  case (2 a b i)
  show ?case by simp
next
  case (3 a b i j)
  then show ?case by (simp add: min.commute min.left_commute eq_commute [of "a ! i"])
qed

lemma levenshtein_sym: "levenshtein a b = levenshtein b a"
  by (simp add: levenshtein_def levenshtein_prefixes_sym [of a b])

lemma levenshtein_prefixes_same: "i \<le> length a \<Longrightarrow> levenshtein_prefixes a a i i = 0"
proof (induction i)
  case 0
  show ?case by simp
next
  case (Suc i)
  then show ?case by simp
qed

lemma levenshtein_same: "levenshtein a a = 0"
  by (simp add: levenshtein_def levenshtein_prefixes_same)

text \<open>One cell of the matrix, then one row, then all rows.\<close>

lemma cell_correct:
  "(if c2 = c1 then levenshtein_prefixes a b i j
    else min (levenshtein_prefixes a b i j + 1)
           (min (levenshtein_prefixes a b (Suc i) j + 1) (levenshtein_prefixes a b i (Suc j) + 1)))
   = min (levenshtein_prefixes a b i (Suc j) + 1)
       (min (levenshtein_prefixes a b (Suc i) j + 1)
          (levenshtein_prefixes a b i j + (if c2 = c1 then 0 else 1)))"
  using lev_left [of a b i j] lev_up [of a b i j] by (simp add: min_def)

lemma fill_row_correct:
  "j \<le> length str1 \<Longrightarrow>
   fill_row (str2 ! i) (drop j str1)
     (map (levenshtein_prefixes str2 str1 i) [j ..< Suc (length str1)])
     (levenshtein_prefixes str2 str1 (Suc i) j)
   = map (levenshtein_prefixes str2 str1 (Suc i)) [Suc j ..< Suc (length str1)]"
proof (induction "length str1 - j" arbitrary: j)
  case 0
  then have "j = length str1" by simp
  then show ?case by (simp del: upt_Suc add: upt_conv_Cons)
next
  case (Suc d)
  then have less: "j < length str1" and d: "d = length str1 - Suc j" by simp_all
  have chars: "drop j str1 = str1 ! j # drop (Suc j) str1"
    using less by (simp add: Cons_nth_drop_Suc)
  have row: "map (levenshtein_prefixes str2 str1 i) [j ..< Suc (length str1)] =
      levenshtein_prefixes str2 str1 i j # levenshtein_prefixes str2 str1 i (Suc j)
        # map (levenshtein_prefixes str2 str1 i) [Suc (Suc j) ..< Suc (length str1)]"
    using less by (simp del: upt_Suc add: upt_conv_Cons)
  have row': "levenshtein_prefixes str2 str1 i (Suc j)
        # map (levenshtein_prefixes str2 str1 i) [Suc (Suc j) ..< Suc (length str1)]
      = map (levenshtein_prefixes str2 str1 i) [Suc j ..< Suc (length str1)]"
    using less by (simp del: upt_Suc add: upt_conv_Cons)
  have cell: "(if str2 ! i = str1 ! j then levenshtein_prefixes str2 str1 i j
       else min (levenshtein_prefixes str2 str1 i j + 1)
              (min (levenshtein_prefixes str2 str1 (Suc i) j + 1)
                 (levenshtein_prefixes str2 str1 i (Suc j) + 1)))
     = levenshtein_prefixes str2 str1 (Suc i) (Suc j)"
    using cell_correct [of "str2 ! i" "str1 ! j" str2 str1 i j] by simp
  have rest: "fill_row (str2 ! i) (drop (Suc j) str1)
      (map (levenshtein_prefixes str2 str1 i) [Suc j ..< Suc (length str1)])
      (levenshtein_prefixes str2 str1 (Suc i) (Suc j))
     = map (levenshtein_prefixes str2 str1 (Suc i)) [Suc (Suc j) ..< Suc (length str1)]"
    using Suc.hyps(1) [of "Suc j"] d less by simp
  have out: "map (levenshtein_prefixes str2 str1 (Suc i)) [Suc j ..< Suc (length str1)]
     = levenshtein_prefixes str2 str1 (Suc i) (Suc j)
        # map (levenshtein_prefixes str2 str1 (Suc i)) [Suc (Suc j) ..< Suc (length str1)]"
    using less by (simp del: upt_Suc add: upt_conv_Cons)
  have "fill_row (str2 ! i) (drop j str1)
      (map (levenshtein_prefixes str2 str1 i) [j ..< Suc (length str1)])
      (levenshtein_prefixes str2 str1 (Suc i) j)
    = levenshtein_prefixes str2 str1 (Suc i) (Suc j)
        # fill_row (str2 ! i) (drop (Suc j) str1)
            (levenshtein_prefixes str2 str1 i (Suc j)
               # map (levenshtein_prefixes str2 str1 i) [Suc (Suc j) ..< Suc (length str1)])
            (levenshtein_prefixes str2 str1 (Suc i) (Suc j))"
    unfolding chars row fill_row.simps Let_def cell by (rule refl)
  then show ?case
    unfolding row' rest out .
qed

lemma next_row_correct:
  "next_row str1 (map (levenshtein_prefixes str2 str1 i) [0 ..< Suc (length str1)])
     (Suc i, str2 ! i)
   = map (levenshtein_prefixes str2 str1 (Suc i)) [0 ..< Suc (length str1)]"
proof -
  have "fill_row (str2 ! i) str1
      (map (levenshtein_prefixes str2 str1 i) [0 ..< Suc (length str1)]) (Suc i)
    = map (levenshtein_prefixes str2 str1 (Suc i)) [Suc 0 ..< Suc (length str1)]"
    using fill_row_correct [of 0 str1 str2 i] by simp
  then show ?thesis
    by (simp del: upt_Suc add: next_row_def upt_conv_Cons [of 0])
qed

lemma rows_correct:
  "k \<le> length str2 \<Longrightarrow>
   foldl (next_row str1) [0 ..< Suc (length str1)] (zip [1 ..< k + 1] (take k str2))
   = map (levenshtein_prefixes str2 str1 k) [0 ..< Suc (length str1)]"
proof (induction k)
  case 0
  have "map (levenshtein_prefixes str2 str1 0) [0 ..< Suc (length str1)] = [0 ..< Suc (length str1)]"
    by (simp del: upt_Suc add: map_idI)
  then show ?case by (simp del: upt_Suc)
next
  case (Suc k)
  then have less: "k < length str2" by simp
  have "zip [1 ..< Suc k + 1] (take (Suc k) str2)
      = zip [1 ..< k + 1] (take k str2) @ [(Suc k, str2 ! k)]"
    using less by (simp add: take_Suc_conv_app_nth)
  then show ?case
    using Suc.IH less next_row_correct [of str1 str2 k] by (simp del: upt_Suc)
qed

lemma levenshteinDistance_correct:
  "levenshteinDistance str1 str2 = levenshtein str1 str2"
proof -
  have "levenshteinDistance str1 str2
      = last (map (levenshtein_prefixes str2 str1 (length str2)) [0 ..< Suc (length str1)])"
    using rows_correct [of "length str2" str2 str1]
    by (simp del: upt_Suc add: levenshteinDistance_def)
  also have "\<dots> = levenshtein_prefixes str2 str1 (length str2) (length str1)"
    by (simp del: upt_Suc add: last_map)
  finally show ?thesis
    by (simp add: levenshtein_def levenshtein_prefixes_sym [of str1 str2])
qed

subsection \<open>The similarity of two names\<close>

lemma clean_examples:
  "clean_name ''John Doe'' = ''john doe''"
  "clean_name ''john   doe'' = ''john doe''"
  "clean_name ''Jane Smith'' = ''jane smith''"
  by code_simp+

lemma distance_example: "levenshteinDistance ''john doe'' ''jane smith'' = 8"
  by code_simp

lemma quotient_one: "a \<noteq> 0 \<Longrightarrow> fdiv (Fin a) (Fin a) = Fin 1"
  using round_double_eval [of 0 1 4503599627370496] by (simp add: pow2_def)

lemma quotient_example:
  "fdiv (Fin 2) (Fin 10) = Fin (3602879701896397 / 18014398509481984)"
  using round_double_eval [of "- 3" "2 / 10" 7205759403792794] by (simp add: pow2_def)

lemma similarity_formula:
  "calculateNameSimilarity name1 name2 =
     (if max (length name1) (length name2) = 0 then Fin 1
      else fdiv (Fin (of_int (int (max (length name1) (length name2))
                               - int (levenshtein name1 name2))))
                (Fin (of_nat (max (length name1) (length name2)))))"
  by (simp add: calculateNameSimilarity_def Let_def levenshteinDistance_correct del: fdiv.simps)

lemma similarity_same: "calculateNameSimilarity name name = Fin 1"
  unfolding similarity_formula levenshtein_same
  by (cases "name = []") (simp_all add: quotient_one del: fdiv.simps)

lemma similarity_example:
  "name_match_similarity ''John Doe'' ''Jane Smith'' = fdiv (Fin 2) (Fin 10)"
  unfolding name_match_similarity_def clean_examples calculateNameSimilarity_def Let_def
  by (simp add: distance_example del: fdiv.simps)

text \<open>
  Claim C9. The similarity is a function of the two names alone. The distance that
  \<open>levenshteinDistance\<close> reads from its matrix is the Levenshtein distance of the two
  strings, for all strings, and the similarity is the quotient, in floating point, of
  the maximal length less that distance by the maximal length (1 for two empty names).
  Two names that the handler's normalisation (lower case, trimmed, runs of white space
  collapsed) makes equal have similarity exactly 1; \<open>John Doe\<close> and \<open>john   doe\<close> are
  such a pair. \<open>John Doe\<close> and \<open>Jane Smith\<close> are at distance 8 with maximal length 10,
  and their similarity, the double nearest to 0.2, is below 0.5.
\<close>

theorem name_match_similarity_levenshtein:
  "levenshteinDistance name1 name2 = levenshtein name1 name2
   \<and> calculateNameSimilarity name1 name2 =
       (if max (length name1) (length name2) = 0 then Fin 1
        else fdiv (Fin (of_int (int (max (length name1) (length name2))
                                 - int (levenshtein name1 name2))))
                  (Fin (of_nat (max (length name1) (length name2)))))
   \<and> (clean_name name1 = clean_name name2 \<longrightarrow> name_match_similarity name1 name2 = Fin 1)
   \<and> clean_name ''John Doe'' = ''john doe'' \<and> clean_name ''john   doe'' = ''john doe''
   \<and> name_match_similarity ''John Doe'' ''john   doe'' = Fin 1
   \<and> clean_name ''Jane Smith'' = ''jane smith''
   \<and> levenshtein ''john doe'' ''jane smith'' = 8
   \<and> name_match_similarity ''John Doe'' ''Jane Smith''
       = Fin (3602879701896397 / 18014398509481984)
   \<and> flt (name_match_similarity ''John Doe'' ''Jane Smith'') (Fin (1 / 2))"
proof -
  have same: "clean_name name1 = clean_name name2 \<longrightarrow> name_match_similarity name1 name2 = Fin 1"
    by (simp add: name_match_similarity_def similarity_same)
  have one: "name_match_similarity ''John Doe'' ''john   doe'' = Fin 1"
    by (simp add: name_match_similarity_def clean_examples similarity_same)
  have distance: "levenshtein ''john doe'' ''jane smith'' = 8"
    using distance_example by (simp only: levenshteinDistance_correct)
  have fifth: "name_match_similarity ''John Doe'' ''Jane Smith''
      = Fin (3602879701896397 / 18014398509481984)"
    by (simp only: similarity_example quotient_example)
  have below: "flt (name_match_similarity ''John Doe'' ''Jane Smith'') (Fin (1 / 2))"
    unfolding fifth by simp
  show ?thesis
    by (intro conjI levenshteinDistance_correct similarity_formula same clean_examples one
        distance fifth below)
qed

text \<open>The theorem at the pair \<open>John Doe\<close>, \<open>john   doe\<close>, which the normalisation makes equal.\<close>

theorem name_match_similarity_levenshtein_witness:
  "clean_name ''John Doe'' = clean_name ''john   doe''
   \<and> name_match_similarity ''John Doe'' ''john   doe'' = Fin 1
   \<and> levenshteinDistance ''John Doe'' ''john   doe'' = levenshtein ''John Doe'' ''john   doe''"
  using name_match_similarity_levenshtein [of "''John Doe''" "''john   doe''"]
  by (simp only: clean_examples simp_thms)

section \<open>Properties of the fee calculator\<close>

lemma calculateQuote_unfold:
  "calculateQuote x fx amountUsd asset network =
     \<lparr>fxRate = getUsdInrRate x fx,
      grossInr = fmul amountUsd (to_number x (getUsdInrRate x fx)),
      tds = fmul (fmul amountUsd (to_number x (getUsdInrRate x fx))) (lit (1 / 100)),
      platformFee = fmul (fmul amountUsd (to_number x (getUsdInrRate x fx))) (lit (7 / 1000)),
      gst = fmul (fmul (fmul amountUsd (to_number x (getUsdInrRate x fx))) (lit (7 / 1000)))
              (lit (18 / 100)),
      netInr = fsub (fsub (fsub (fmul amountUsd (to_number x (getUsdInrRate x fx)))
                 (fmul (fmul amountUsd (to_number x (getUsdInrRate x fx))) (lit (1 / 100))))
                 (fmul (fmul amountUsd (to_number x (getUsdInrRate x fx))) (lit (7 / 1000))))
                 (fmul (fmul (fmul amountUsd (to_number x (getUsdInrRate x fx))) (lit (7 / 1000)))
                    (lit (18 / 100))),
      depositAddress = fst (generateDepositAddress x network),
      minConfirmations = snd (generateDepositAddress x network)\<rparr>"
  by (simp add: calculateQuote_def Let_def)

lemma example_rate: "getUsdInrRate example_live_ext example_fx = JNum (lit (8365 / 100))"
  unfolding example_fx_def lit_fx
  by (simp add: getUsdInrRate_def example_live_ext_def example_ext_def member_of_def Let_def)

lemma example_quote:
  "calculateQuote example_live_ext example_fx (Fin 100) ''USDC'' ''polygon'' =
     \<lparr>fxRate = JNum (lit (8365 / 100)), grossInr = Fin 8365, tds = lit (8365 / 100),
      platformFee = lit (58555 / 1000), gst = lit (105399 / 10000),
      netInr = lit (82122551 / 10000),
      depositAddress = JStr ''0x8e1234567890abcdef1234567890abcdef1234567'',
      minConfirmations = JNum (Fin 12)\<rparr>"
  unfolding calculateQuote_unfold example_rate
  unfolding to_number_def jsval.case lit_fx lit_c1 lit_c7 lit_c18 lit_p lit_s lit_n
    example_gross example_tds example_fee example_gst example_net
  by (simp add: generateDepositAddress_def lookup_own_or_inherited_def addresses_def
      confirmations_def or_else_def)

text \<open>
  Claim C1, for the arithmetic the code runs. Whenever the rate provider gives a finite
  rate and the gross amount \<open>amountUsd * fxRate\<close>, rounded as the multiplication rounds
  it, is a finite number of at least \<open>2 ^ -1022\<close>, \<open>calculateQuote\<close> returns that gross
  amount, the TDS \<open>gross * 0.01\<close>, the platform fee \<open>gross * 0.007\<close>, the GST
  \<open>fee * 0.18\<close> and the net amount \<open>gross - tds - fee - gst\<close>, each operation rounded to
  binary64; all of them are finite, the TDS and the net amount are positive, the fee and
  the GST are not negative, and the net amount is strictly less than the gross amount.
  For 100 USD at the rate 83.65 the values are exactly the doubles written 8365, 83.65,
  58.555, 10.5399 and 8212.2551.
\<close>

theorem quote_breakdown:
  "(getUsdInrRate x fx = JNum (Fin rate)
      \<and> fmul (Fin amountUsd) (Fin rate) = Fin g \<and> pow2 (- 1022) \<le> g \<longrightarrow>
      (\<exists>t p s n.
          calculateQuote x fx (Fin amountUsd) asset network =
            \<lparr>fxRate = JNum (Fin rate), grossInr = Fin g, tds = Fin t, platformFee = Fin p,
             gst = Fin s, netInr = Fin n,
             depositAddress = fst (generateDepositAddress x network),
             minConfirmations = snd (generateDepositAddress x network)\<rparr>
        \<and> Fin t = fmul (Fin g) (lit (1 / 100))
        \<and> Fin p = fmul (Fin g) (lit (7 / 1000))
        \<and> Fin s = fmul (Fin p) (lit (18 / 100))
        \<and> Fin n = fsub (fsub (fsub (Fin g) (Fin t)) (Fin p)) (Fin s)
        \<and> 0 < t \<and> 0 \<le> p \<and> 0 \<le> s \<and> 0 < n \<and> n < g
        \<and> flt (Fin n) (Fin g)))
   \<and> calculateQuote example_live_ext example_fx (Fin 100) ''USDC'' ''polygon'' =
       \<lparr>fxRate = JNum (lit (8365 / 100)), grossInr = Fin 8365, tds = lit (8365 / 100),
        platformFee = lit (58555 / 1000), gst = lit (105399 / 10000),
        netInr = lit (82122551 / 10000),
        depositAddress = JStr ''0x8e1234567890abcdef1234567890abcdef1234567'',
        minConfirmations = JNum (Fin 12)\<rparr>"
proof (intro conjI impI)
  assume h: "getUsdInrRate x fx = JNum (Fin rate)
      \<and> fmul (Fin amountUsd) (Fin rate) = Fin g \<and> pow2 (- 1022) \<le> g"
  then have rate: "getUsdInrRate x fx = JNum (Fin rate)"
    and gross: "fmul (Fin amountUsd) (Fin rate) = Fin g" and normal: "pow2 (- 1022) \<le> g"
    by simp_all
  from gross have "round_double (amountUsd * rate) = Fin g"
    by simp
  then have rep: "round_double g = Fin g"
    by (rule round_double_idem)
  from quote_arithmetic [OF rep normal]
  obtain t p s d1 d2 n where a:
    "fmul (Fin g) (lit (1 / 100)) = Fin t" "fmul (Fin g) (lit (7 / 1000)) = Fin p"
    "fmul (Fin p) (lit (18 / 100)) = Fin s" "fsub (Fin g) (Fin t) = Fin d1"
    "fsub (Fin d1) (Fin p) = Fin d2" "fsub (Fin d2) (Fin s) = Fin n"
    and b: "0 < t" "0 \<le> p" "0 \<le> s" "0 < n" "n < g"
    by blast
  have num: "to_number x (JNum (Fin rate)) = Fin rate"
    by (simp add: to_number_def)
  have q: "calculateQuote x fx (Fin amountUsd) asset network =
            \<lparr>fxRate = JNum (Fin rate), grossInr = Fin g, tds = Fin t, platformFee = Fin p,
             gst = Fin s, netInr = Fin n,
             depositAddress = fst (generateDepositAddress x network),
             minConfirmations = snd (generateDepositAddress x network)\<rparr>"
    unfolding calculateQuote_unfold rate num gross a by (rule refl)
  have net: "Fin n = fsub (fsub (fsub (Fin g) (Fin t)) (Fin p)) (Fin s)"
    unfolding a by (rule refl)
  have lt: "flt (Fin n) (Fin g)"
    using b(5) by simp
  show "\<exists>t p s n.
          calculateQuote x fx (Fin amountUsd) asset network =
            \<lparr>fxRate = JNum (Fin rate), grossInr = Fin g, tds = Fin t, platformFee = Fin p,
             gst = Fin s, netInr = Fin n,
             depositAddress = fst (generateDepositAddress x network),
             minConfirmations = snd (generateDepositAddress x network)\<rparr>
        \<and> Fin t = fmul (Fin g) (lit (1 / 100))
        \<and> Fin p = fmul (Fin g) (lit (7 / 1000))
        \<and> Fin s = fmul (Fin p) (lit (18 / 100))
        \<and> Fin n = fsub (fsub (fsub (Fin g) (Fin t)) (Fin p)) (Fin s)
        \<and> 0 < t \<and> 0 \<le> p \<and> 0 \<le> s \<and> 0 < n \<and> n < g
        \<and> flt (Fin n) (Fin g)"
    by (intro exI [of _ t] exI [of _ p] exI [of _ s] exI [of _ n] conjI q a(1-3) [symmetric]
        net b lt)
next
  show "calculateQuote example_live_ext example_fx (Fin 100) ''USDC'' ''polygon'' =
       \<lparr>fxRate = JNum (lit (8365 / 100)), grossInr = Fin 8365, tds = lit (8365 / 100),
        platformFee = lit (58555 / 1000), gst = lit (105399 / 10000),
        netInr = lit (82122551 / 10000),
        depositAddress = JStr ''0x8e1234567890abcdef1234567890abcdef1234567'',
        minConfirmations = JNum (Fin 12)\<rparr>"
    by (rule example_quote)
qed

lemma lit_fallback: "lit (8340 / 100) = Fin (2934376632208589 / 35184372088832)"
  unfolding lit_def using round_double_eval [of 6 "8340 / 100" 5868753264417178]
  by (simp add: pow2_def)

lemma fallback_rate_value:
  "getUsdInrRate example_ext FxRejects = JNum (Fin (2934376632208589 / 35184372088832))"
  unfolding getUsdInrRate_def fallback_rate_def lit_fallback
  by (simp add: example_ext_def)

lemma overflow_gross:
  "fmul (Fin (2 ^ 1023)) (Fin (2934376632208589 / 35184372088832)) = PInf"
proof -
  have "pow2 1024 \<le> 2 ^ 1023 * (2934376632208589 / 35184372088832)"
    by (simp add: pow2_def)
  then show ?thesis
    by (simp only: fmul.simps round_double_overflow)
qed

text \<open>
  Claim C1 as stated, for every positive amount and rate, fails where the product
  overflows: for the amount \<open>2 ^ 1023\<close> (a double, about 9e307) at the fallback rate the
  gross amount is infinite and the net amount is NaN, which is not less than anything.
\<close>

theorem quote_overflow_counterexample:
  "(0::rat) < 2 ^ 1023
   \<and> fxRate (calculateQuote example_ext FxRejects (Fin (2 ^ 1023)) ''USDC'' ''polygon'')
       = JNum (Fin (2934376632208589 / 35184372088832))
   \<and> grossInr (calculateQuote example_ext FxRejects (Fin (2 ^ 1023)) ''USDC'' ''polygon'') = PInf
   \<and> netInr (calculateQuote example_ext FxRejects (Fin (2 ^ 1023)) ''USDC'' ''polygon'') = NaN
   \<and> \<not> flt (netInr (calculateQuote example_ext FxRejects (Fin (2 ^ 1023)) ''USDC'' ''polygon''))
            (grossInr (calculateQuote example_ext FxRejects (Fin (2 ^ 1023)) ''USDC'' ''polygon''))"
proof -
  have q: "calculateQuote example_ext FxRejects (Fin (2 ^ 1023)) ''USDC'' ''polygon'' =
     \<lparr>fxRate = JNum (Fin (2934376632208589 / 35184372088832)), grossInr = PInf, tds = PInf,
      platformFee = PInf, gst = PInf, netInr = NaN,
      depositAddress = fst (generateDepositAddress example_ext ''polygon''),
      minConfirmations = snd (generateDepositAddress example_ext ''polygon'')\<rparr>"
    unfolding calculateQuote_unfold fallback_rate_value to_number_def jsval.case overflow_gross
      lit_c1 lit_c7 lit_c18
    by simp
  show ?thesis
    unfolding q by simp
qed

text \<open>The theorem for 100 USD at the rate 83.65.\<close>

theorem quote_breakdown_witness:
  "getUsdInrRate example_live_ext example_fx = JNum (Fin (2943172725230797 / 35184372088832))
   \<and> fmul (Fin 100) (Fin (2943172725230797 / 35184372088832)) = Fin 8365
   \<and> pow2 (- 1022) \<le> 8365
   \<and> (\<exists>t p s n.
          calculateQuote example_live_ext example_fx (Fin 100) ''USDC'' ''polygon'' =
            \<lparr>fxRate = JNum (Fin (2943172725230797 / 35184372088832)), grossInr = Fin 8365,
             tds = Fin t, platformFee = Fin p, gst = Fin s, netInr = Fin n,
             depositAddress = fst (generateDepositAddress example_live_ext ''polygon''),
             minConfirmations = snd (generateDepositAddress example_live_ext ''polygon'')\<rparr>
        \<and> 0 < t \<and> 0 \<le> p \<and> 0 \<le> s \<and> 0 < n \<and> n < 8365
        \<and> flt (Fin n) (Fin 8365))"
proof -
  have rate: "getUsdInrRate example_live_ext example_fx
      = JNum (Fin (2943172725230797 / 35184372088832))"
    using example_rate by (simp only: lit_fx)
  have normal: "pow2 (- 1022) \<le> 8365"
    by (simp add: pow2_def)
  from quote_breakdown [of example_live_ext example_fx "2943172725230797 / 35184372088832"
      100 8365 "''USDC''" "''polygon''"] rate example_gross normal
  obtain t p s n where r:
    "calculateQuote example_live_ext example_fx (Fin 100) ''USDC'' ''polygon'' =
            \<lparr>fxRate = JNum (Fin (2943172725230797 / 35184372088832)), grossInr = Fin 8365,
             tds = Fin t, platformFee = Fin p, gst = Fin s, netInr = Fin n,
             depositAddress = fst (generateDepositAddress example_live_ext ''polygon''),
             minConfirmations = snd (generateDepositAddress example_live_ext ''polygon'')\<rparr>"
    "0 < t" "0 \<le> p" "0 \<le> s" "0 < n" "n < 8365" "flt (Fin n) (Fin 8365)"
    by blast
  show ?thesis
    by (intro conjI rate example_gross normal exI [of _ t] exI [of _ p] exI [of _ s]
        exI [of _ n] r)
qed

section \<open>Properties of the rate provider\<close>

lemma getUsdInrRate_unavailable:
  "fx_unavailable x fx \<Longrightarrow> getUsdInrRate x fx = fallback_rate"
  by (auto simp: fx_unavailable_def getUsdInrRate_def split: option.splits fx_fetch.splits)

lemma fallback_toString: "js_toString x fallback_rate = Some (toString x fallback_rate)"
  by (simp add: js_toString_def fallback_rate_def)

lemma quotes_handler_imported:
  assumes "list_all truthy [getProp query ''sessionId'', getProp query ''asset'',
             getProp query ''network'', getProp query ''amountUsd'']"
    and "js_toString x (getUsdInrRate x fx) = Some rate"
  shows "quotes_handler (mockStorage x) x fx () query =
     (Success
        [''sessionId'' \<mapsto> getProp query ''sessionId'',
         ''quoteId'' \<mapsto> JStr (''quote_'' @ dec (now x)),
         ''asset'' \<mapsto> getProp query ''asset'',
         ''network'' \<mapsto> getProp query ''network'',
         ''amountUsd'' \<mapsto>
            JStr (toString x (JNum (parseFloat x (string_of x (getProp query ''amountUsd''))))),
         ''fxRate'' \<mapsto> JStr rate,
         ''grossInr'' \<mapsto> JStr (toString x (JNum (grossInr
            (calculateQuote x fx (parseFloat x (string_of x (getProp query ''amountUsd'')))
               (string_of x (getProp query ''asset''))
               (string_of x (getProp query ''network'')))))),
         ''breakdown'' \<mapsto> JObj
            [(''tds'', JStr (toString x (JNum (tds
                (calculateQuote x fx (parseFloat x (string_of x (getProp query ''amountUsd'')))
                   (string_of x (getProp query ''asset''))
                   (string_of x (getProp query ''network''))))))),
             (''platformFee'', JStr (toString x (JNum (platformFee
                (calculateQuote x fx (parseFloat x (string_of x (getProp query ''amountUsd'')))
                   (string_of x (getProp query ''asset''))
                   (string_of x (getProp query ''network''))))))),
             (''gst'', JStr (toString x (JNum (gst
                (calculateQuote x fx (parseFloat x (string_of x (getProp query ''amountUsd'')))
                   (string_of x (getProp query ''asset''))
                   (string_of x (getProp query ''network''))))))),
             (''netInr'', JStr (toString x (JNum (netInr
                (calculateQuote x fx (parseFloat x (string_of x (getProp query ''amountUsd'')))
                   (string_of x (getProp query ''asset''))
                   (string_of x (getProp query ''network'')))))))],
         ''depositAddress'' \<mapsto> JObj
            [(''network'', getProp query ''network''),
             (''address'',
                fst (generateDepositAddress x (string_of x (getProp query ''network'')))),
             (''minConfirmations'',
                snd (generateDepositAddress x (string_of x (getProp query ''network''))))],
         ''expiresAt'' \<mapsto> JDate (now x + 15 * 60 * 1000),
         ''status'' \<mapsto> JStr ''active''], ())"
proof -
  have rate: "js_toString x (fxRate (calculateQuote x fx a asset network)) = Some rate"
    for a asset network
    using assms(2) by (simp add: calculateQuote_unfold)
  have address: "depositAddress (calculateQuote x fx a asset network)
        = fst (generateDepositAddress x network)"
    "minConfirmations (calculateQuote x fx a asset network)
        = snd (generateDepositAddress x network)" for a asset network
    by (simp_all add: calculateQuote_unfold)
  show ?thesis
    using assms(1)
    by (simp add: quotes_handler_def Let_def rate address del: fmul.simps fsub.simps)
qed

lemma fallback_quote_amounts:
  "fmul (Fin 100) (Fin (2934376632208589 / 35184372088832)) = Fin 8340"
  "fmul (Fin 8340) (Fin (5764607523034235 / 576460752303423488))
     = Fin (2934376632208589 / 35184372088832)"
  "fmul (Fin 8340) (Fin (8070450532247929 / 1152921504606846976))
     = Fin (8216254570184049 / 140737488355328)"
  "fmul (Fin (8216254570184049 / 140737488355328)) (Fin (3242591731706757 / 18014398509481984))
     = Fin (5915703290532515 / 562949953421312)"
  "fsub (Fin 8340) (Fin (2934376632208589 / 35184372088832))
     = Fin (4539113852947661 / 549755813888)"
  "fsub (Fin (4539113852947661 / 549755813888)) (Fin (8216254570184049 / 140737488355328))
     = Fin (281688694283305 / 34359738368)"
  "fsub (Fin (281688694283305 / 34359738368)) (Fin (5915703290532515 / 562949953421312))
     = Fin (9002484109076439 / 1099511627776)"
  using round_double_eval [of 13 "100 * (2934376632208589 / 35184372088832)" 4584963487825920]
    round_double_eval [of 6 "8340 * (5764607523034235 / 576460752303423488)" 5868753264417178]
    round_double_eval [of 5 "8340 * (8070450532247929 / 1152921504606846976)" 8216254570184049]
    round_double_eval [of 3
      "8216254570184049 / 140737488355328 * (3242591731706757 / 18014398509481984)"
      5915703290532515]
    round_double_eval [of 13 "8340 - 2934376632208589 / 35184372088832" 4539113852947661]
    round_double_eval [of 13
      "4539113852947661 / 549755813888 - 8216254570184049 / 140737488355328" 4507019108532880]
    round_double_eval [of 12
      "281688694283305 / 34359738368 - 5915703290532515 / 562949953421312" 9002484109076439]
  by (simp_all add: pow2_def)

lemma fallback_quote:
  "calculateQuote example_ext FxRejects (Fin 100) ''USDC'' ''polygon'' =
     \<lparr>fxRate = JNum (Fin (2934376632208589 / 35184372088832)), grossInr = Fin 8340,
      tds = Fin (2934376632208589 / 35184372088832),
      platformFee = Fin (8216254570184049 / 140737488355328),
      gst = Fin (5915703290532515 / 562949953421312),
      netInr = Fin (9002484109076439 / 1099511627776),
      depositAddress = JStr ''0x8e1234567890abcdef1234567890abcdef1234567'',
      minConfirmations = JNum (Fin 12)\<rparr>"
  unfolding calculateQuote_unfold fallback_rate_value
  unfolding to_number_def jsval.case lit_c1 lit_c7 lit_c18 fallback_quote_amounts
  by (simp add: generateDepositAddress_def lookup_own_or_inherited_def addresses_def
      confirmations_def or_else_def)

text \<open>
  Claim C7. \<open>getUsdInrRate\<close> is total: every point where the source can throw is
  inside its \<open>try\<close> and is a branch of the model. Whenever the provider is unavailable
  (no API key, the request or its parsing rejected, which is where a network error and
  a timeout end, a \<open>null\<close> or non-success body) it returns the fallback 83.40. The quote
  handler then answers every request that has its four fields with success, and the
  quote it returns is the one computed from the requested amount at that rate: the
  gross amount \<open>amount * 83.4\<close>, the TDS, the platform fee, the GST and the net amount
  taken from it, each written out as a string.
\<close>

theorem rate_provider_falls_back:
  "fx_unavailable x fx \<longrightarrow>
     getUsdInrRate x fx = JNum (lit (8340 / 100))
   \<and> (list_all truthy [getProp query ''sessionId'', getProp query ''asset'',
         getProp query ''network'', getProp query ''amountUsd''] \<longrightarrow>
        (\<exists>amount gross t p s n.
           amount = parseFloat x (string_of x (getProp query ''amountUsd''))
         \<and> gross = fmul amount (lit (8340 / 100))
         \<and> t = fmul gross (lit (1 / 100))
         \<and> p = fmul gross (lit (7 / 1000))
         \<and> s = fmul p (lit (18 / 100))
         \<and> n = fsub (fsub (fsub gross t) p) s
         \<and> quotes_handler (mockStorage x) x fx () query =
             (Success
                [''sessionId'' \<mapsto> getProp query ''sessionId'',
                 ''quoteId'' \<mapsto> JStr (''quote_'' @ dec (now x)),
                 ''asset'' \<mapsto> getProp query ''asset'',
                 ''network'' \<mapsto> getProp query ''network'',
                 ''amountUsd'' \<mapsto> JStr (toString x (JNum amount)),
                 ''fxRate'' \<mapsto> JStr (toString x (JNum (lit (8340 / 100)))),
                 ''grossInr'' \<mapsto> JStr (toString x (JNum gross)),
                 ''breakdown'' \<mapsto> JObj
                    [(''tds'', JStr (toString x (JNum t))),
                     (''platformFee'', JStr (toString x (JNum p))),
                     (''gst'', JStr (toString x (JNum s))),
                     (''netInr'', JStr (toString x (JNum n)))],
                 ''depositAddress'' \<mapsto> JObj
                    [(''network'', getProp query ''network''),
                     (''address'',
                        fst (generateDepositAddress x (string_of x (getProp query ''network'')))),
                     (''minConfirmations'',
                        snd (generateDepositAddress x (string_of x (getProp query ''network''))))],
                 ''expiresAt'' \<mapsto> JDate (now x + 15 * 60 * 1000),
                 ''status'' \<mapsto> JStr ''active''], ())))"
proof (intro impI conjI)
  assume down: "fx_unavailable x fx"
  then show rate: "getUsdInrRate x fx = JNum (lit (8340 / 100))"
    by (simp add: getUsdInrRate_unavailable fallback_rate_def)
  assume fields: "list_all truthy [getProp query ''sessionId'', getProp query ''asset'',
         getProp query ''network'', getProp query ''amountUsd'']"
  have shown: "js_toString x (getUsdInrRate x fx) = Some (toString x (JNum (lit (8340 / 100))))"
    unfolding rate by (simp add: js_toString_def)
  have number: "to_number x (getUsdInrRate x fx) = lit (8340 / 100)"
    unfolding rate by (simp add: to_number_def)
  show "\<exists>amount gross t p s n.
           amount = parseFloat x (string_of x (getProp query ''amountUsd''))
         \<and> gross = fmul amount (lit (8340 / 100))
         \<and> t = fmul gross (lit (1 / 100))
         \<and> p = fmul gross (lit (7 / 1000))
         \<and> s = fmul p (lit (18 / 100))
         \<and> n = fsub (fsub (fsub gross t) p) s
         \<and> quotes_handler (mockStorage x) x fx () query =
             (Success
                [''sessionId'' \<mapsto> getProp query ''sessionId'',
                 ''quoteId'' \<mapsto> JStr (''quote_'' @ dec (now x)),
                 ''asset'' \<mapsto> getProp query ''asset'',
                 ''network'' \<mapsto> getProp query ''network'',
                 ''amountUsd'' \<mapsto> JStr (toString x (JNum amount)),
                 ''fxRate'' \<mapsto> JStr (toString x (JNum (lit (8340 / 100)))),
                 ''grossInr'' \<mapsto> JStr (toString x (JNum gross)),
                 ''breakdown'' \<mapsto> JObj
                    [(''tds'', JStr (toString x (JNum t))),
                     (''platformFee'', JStr (toString x (JNum p))),
                     (''gst'', JStr (toString x (JNum s))),
                     (''netInr'', JStr (toString x (JNum n)))],
                 ''depositAddress'' \<mapsto> JObj
                    [(''network'', getProp query ''network''),
                     (''address'',
                        fst (generateDepositAddress x (string_of x (getProp query ''network'')))),
                     (''minConfirmations'',
                        snd (generateDepositAddress x (string_of x (getProp query ''network''))))],
                 ''expiresAt'' \<mapsto> JDate (now x + 15 * 60 * 1000),
                 ''status'' \<mapsto> JStr ''active''], ())"
    unfolding quotes_handler_imported [OF fields shown] calculateQuote_unfold number
    by (simp del: fmul.simps fsub.simps)
qed

text \<open>
  The theorem with no API key configured and the request rejected: 100 USD are quoted
  at 83.4, gross 8340, less 83.4, 58.38 and 10.5084.
\<close>

theorem rate_provider_falls_back_witness:
  "fx_unavailable example_ext FxRejects
   \<and> list_all truthy [getProp example_quote_query ''sessionId'',
         getProp example_quote_query ''asset'', getProp example_quote_query ''network'',
         getProp example_quote_query ''amountUsd'']
   \<and> getUsdInrRate example_ext FxRejects = JNum (Fin (2934376632208589 / 35184372088832))
   \<and> quotes_handler (mockStorage example_ext) example_ext FxRejects () example_quote_query =
       (Success
          [''sessionId'' \<mapsto> JStr ''sess_1'',
           ''quoteId'' \<mapsto> JStr (''quote_'' @ dec 1700000000000),
           ''asset'' \<mapsto> JStr ''USDC'',
           ''network'' \<mapsto> JStr ''polygon'',
           ''amountUsd'' \<mapsto> JStr ''100'',
           ''fxRate'' \<mapsto> JStr ''83.4'',
           ''grossInr'' \<mapsto> JStr ''8340'',
           ''breakdown'' \<mapsto> JObj
              [(''tds'', JStr ''83.4''), (''platformFee'', JStr ''58.38''),
               (''gst'', JStr ''10.5084''), (''netInr'', JStr ''8187.711600000001'')],
           ''depositAddress'' \<mapsto> JObj
              [(''network'', JStr ''polygon''),
               (''address'', JStr ''0x8e1234567890abcdef1234567890abcdef1234567''),
               (''minConfirmations'', JNum (Fin 12))],
           ''expiresAt'' \<mapsto> JDate 1700000900000,
           ''status'' \<mapsto> JStr ''active''], ())"
proof -
  have down: "fx_unavailable example_ext FxRejects"
    by (simp add: fx_unavailable_def example_ext_def)
  have fields: "list_all truthy [getProp example_quote_query ''sessionId'',
         getProp example_quote_query ''asset'', getProp example_quote_query ''network'',
         getProp example_quote_query ''amountUsd'']"
    by (simp add: example_quote_query_def)
  note t = rate_provider_falls_back [of example_ext FxRejects example_quote_query]
  from t down have rate:
    "getUsdInrRate example_ext FxRejects = JNum (Fin (2934376632208589 / 35184372088832))"
    by (simp only: lit_fallback)
  have amount: "parseFloat example_ext (string_of example_ext
      (getProp example_quote_query ''amountUsd'')) = Fin 100"
    by (simp add: example_ext_def)
  have address: "generateDepositAddress example_ext
      (string_of example_ext (getProp example_quote_query ''network''))
    = (JStr ''0x8e1234567890abcdef1234567890abcdef1234567'', JNum (Fin 12))"
    by (simp add: example_quote_query_def string_of_def generateDepositAddress_def
        lookup_own_or_inherited_def addresses_def confirmations_def or_else_def)
  have strings: "toString example_ext (JNum (Fin 100)) = ''100''"
    "toString example_ext (JNum (Fin 8340)) = ''8340''"
    "toString example_ext (JNum (Fin (2934376632208589 / 35184372088832))) = ''83.4''"
    "toString example_ext (JNum (Fin (8216254570184049 / 140737488355328))) = ''58.38''"
    "toString example_ext (JNum (Fin (5915703290532515 / 562949953421312))) = ''10.5084''"
    "toString example_ext (JNum (Fin (9002484109076439 / 1099511627776)))
       = ''8187.711600000001''"
    by (simp_all add: example_ext_def)
  have clock: "now example_ext = 1700000000000"
    by (simp add: example_ext_def)
  from t down fields have run:
    "quotes_handler (mockStorage example_ext) example_ext FxRejects () example_quote_query =
       (Success
          [''sessionId'' \<mapsto> JStr ''sess_1'',
           ''quoteId'' \<mapsto> JStr (''quote_'' @ dec 1700000000000),
           ''asset'' \<mapsto> JStr ''USDC'',
           ''network'' \<mapsto> JStr ''polygon'',
           ''amountUsd'' \<mapsto> JStr ''100'',
           ''fxRate'' \<mapsto> JStr ''83.4'',
           ''grossInr'' \<mapsto> JStr ''8340'',
           ''breakdown'' \<mapsto> JObj
              [(''tds'', JStr ''83.4''), (''platformFee'', JStr ''58.38''),
               (''gst'', JStr ''10.5084''), (''netInr'', JStr ''8187.711600000001'')],
           ''depositAddress'' \<mapsto> JObj
              [(''network'', JStr ''polygon''),
               (''address'', JStr ''0x8e1234567890abcdef1234567890abcdef1234567''),
               (''minConfirmations'', JNum (Fin 12))],
           ''expiresAt'' \<mapsto> JDate 1700000900000,
           ''status'' \<mapsto> JStr ''active''], ())"
    unfolding amount address lit_fallback lit_c1 lit_c7 lit_c18 clock
    by (simp add: example_quote_query_def fallback_quote_amounts strings
        del: fmul.simps fsub.simps)
  show ?thesis
    by (intro conjI down fields rate run)
qed

section \<open>Properties of webhook signatures\<close>





section \<open>Properties of the Aadhaar verification\<close>

subsection \<open>The handler of the enhanced routes\<close>

text \<open>
  The enhanced handler makes the same write: when it answers success it has asked its
  store to set the status \<open>completed\<close> together with \<open>aadhaarVerified\<close>. The imported
  store answers every lookup with a KYC session that is \<open>completed\<close> already and has
  no \<open>verificationData\<close>, so with it the handler stops at the missing reference.
\<close>

lemma enhanced_aadhaar_okyc_success:
  assumes "enhanced_aadhaar_okyc storage x cashfree st body = (Success data, st')"
  shows "\<exists>answer name digits.
           cashfree = CfSuccess answer
         \<and> getProp body ''aadhaarNumber'' = JStr digits
         \<and> st' = logComplianceEvent storage x
                    (snd (storage_updateKycSession storage st (getProp body ''sessionId'')
                            [''status'' \<mapsto> JStr ''completed'',
                             ''aadhaarVerified'' \<mapsto> JBool True,
                             ''aadhaarName'' \<mapsto> name, ''verifiedName'' \<mapsto> name,
                             ''verificationData'' \<mapsto> answer]))
                    ''aadhaar_verification''
                    [(''sessionId'', getProp body ''sessionId''),
                     (''aadhaarNumber'', JStr (''XXXX-XXXX-'' @ last4 digits)),
                     (''verifiedName'', name), (''status'', JStr ''success'')]"
  using assms unfolding enhanced_aadhaar_okyc_def Let_def
  by (auto simp: case_prod_beta
      split: if_splits jsval.splits option.splits cashfree_call.splits)

lemma enhanced_aadhaar_okyc_imported:
  assumes "list_all truthy [getProp body ''sessionId'', getProp body ''aadhaarNumber'',
             getProp body ''otp'']"
  shows "enhanced_aadhaar_okyc (mockStorage x) x cashfree () body =
     (Failure 400 ''No Aadhaar reference ID found. Please generate OTP first.'', ())"
  using assms by (simp add: enhanced_aadhaar_okyc_def Let_def or_else_def member_of_def)

subsection \<open>The handler of routes.ts\<close>

lemma aadhaar_okyc_success:
  assumes "aadhaar_okyc x cashfree st body = (Success data, st')"
  shows "\<exists>sid session name answer.
           getProp body ''sessionId'' = JStr sid
         \<and> kycSessions st sid = Some session
         \<and> cashfree = CfSuccess answer
         \<and> st' = st\<lparr>kycSessions := (kycSessions st)(sid \<mapsto> session ++
                  [''status'' \<mapsto> JStr ''completed'', ''aadhaarVerified'' \<mapsto> JBool True,
                   ''aadhaarName'' \<mapsto> name, ''verifiedName'' \<mapsto> name,
                   ''verificationData'' \<mapsto> answer])\<rparr>"
  using assms unfolding aadhaar_okyc_def Let_def getKycSessionById_def updateKycSession_def
  by (auto simp: caught_def split: if_splits jsval.splits option.splits cashfree_call.splits)

lemma updateKycVerificationStatus_keeps_status:
  assumes "updateKycVerificationStatus st sessionId vt verified name = (Some updated, st')"
  shows "\<exists>session. kycSessions st sessionId = Some session
           \<and> kycSessions st' sessionId = Some updated
           \<and> updated ''status'' = session ''status''"
proof (cases "kycSessions st sessionId")
  case None
  with assms show ?thesis
    by (simp add: updateKycVerificationStatus_def)
next
  case (Some session)
  have "verification_updates vt verified name ''status'' = None"
    by (simp add: verification_updates_def name_update_def)
  then have "(session ++ verification_updates vt verified name) ''status'' = session ''status''"
    by (rule map_add_untouched)
  with assms Some show ?thesis
    by (auto simp: updateKycVerificationStatus_found)
qed

text \<open>
  Claim C5, as the code has it. Whenever the Aadhaar handler of routes.ts answers
  success, the session it stores has status \<open>completed\<close> and \<open>aadhaarVerified\<close> true,
  and its other five flags are what they were: no set of required methods is
  consulted. Recording the result of any method through \<open>updateKycVerificationStatus\<close>
  leaves the status as it was.
\<close>

theorem kyc_completed_by_aadhaar_alone:
  "(aadhaar_okyc x cashfree st body = (Success data, st') \<longrightarrow>
      (\<exists>sid session updated.
          getProp body ''sessionId'' = JStr sid
        \<and> kycSessions st sid = Some session \<and> kycSessions st' sid = Some updated
        \<and> updated ''status'' = Some (JStr ''completed'')
        \<and> updated ''aadhaarVerified'' = Some (JBool True)
        \<and> (\<forall>m. m \<noteq> Aadhaar \<longrightarrow> updated (verified_flag m) = session (verified_flag m))))
   \<and> (updateKycVerificationStatus store sessionId vt verified name = (Some recorded, st'') \<longrightarrow>
      (\<exists>session. kycSessions store sessionId = Some session
         \<and> kycSessions st'' sessionId = Some recorded
         \<and> recorded ''status'' = session ''status''))"
proof (intro conjI impI)
  assume "aadhaar_okyc x cashfree st body = (Success data, st')"
  from aadhaar_okyc_success [OF this] obtain sid session name answer where
    sid: "getProp body ''sessionId'' = JStr sid" "kycSessions st sid = Some session"
    and st': "st' = st\<lparr>kycSessions := (kycSessions st)(sid \<mapsto> session ++
                  [''status'' \<mapsto> JStr ''completed'', ''aadhaarVerified'' \<mapsto> JBool True,
                   ''aadhaarName'' \<mapsto> name, ''verifiedName'' \<mapsto> name,
                   ''verificationData'' \<mapsto> answer])\<rparr>"
    by (elim exE conjE) (rule that; assumption)
  let ?updated = "session ++
                  [''status'' \<mapsto> JStr ''completed'', ''aadhaarVerified'' \<mapsto> JBool True,
                   ''aadhaarName'' \<mapsto> name, ''verifiedName'' \<mapsto> name,
                   ''verificationData'' \<mapsto> answer]"
  have stored: "kycSessions st' sid = Some ?updated"
    by (simp add: st')
  have flags: "?updated ''status'' = Some (JStr ''completed'')"
    "?updated ''aadhaarVerified'' = Some (JBool True)"
    by simp_all
  have others: "\<forall>m. m \<noteq> Aadhaar \<longrightarrow> ?updated (verified_flag m) = session (verified_flag m)"
  proof (intro allI impI)
    fix m :: kyc_method
    assume "m \<noteq> Aadhaar"
    then show "?updated (verified_flag m) = session (verified_flag m)"
      by (cases m) (simp_all add: map_add_def)
  qed
  show "\<exists>sid session updated.
          getProp body ''sessionId'' = JStr sid
        \<and> kycSessions st sid = Some session \<and> kycSessions st' sid = Some updated
        \<and> updated ''status'' = Some (JStr ''completed'')
        \<and> updated ''aadhaarVerified'' = Some (JBool True)
        \<and> (\<forall>m. m \<noteq> Aadhaar \<longrightarrow> updated (verified_flag m) = session (verified_flag m))"
    by (intro exI [of _ sid] exI [of _ session] exI [of _ ?updated] conjI sid stored flags
        others)
next
  assume "updateKycVerificationStatus store sessionId vt verified name = (Some recorded, st'')"
  then show "\<exists>session. kycSessions store sessionId = Some session
         \<and> kycSessions st'' sessionId = Some recorded
         \<and> recorded ''status'' = session ''status''"
    by (rule updateKycVerificationStatus_keeps_status)
qed

lemma pad_examples:
  "padStart3 (dec_nat (Suc 0)) = ''001''"
  "padStart3 (dec_nat 2) = ''002''"
  by code_simp+

lemma example_partner_created:
  "currentId partner_store = 2"
  "kycSessions partner_store = Map.empty"
  "map_option (\<lambda>partner. map (getProp partner) [''partnerId'', ''apiKey'', ''status''])
     (partners partner_store ''partner_001'')
   = Some [JStr ''partner_001'', JStr ''pk_live_5f2a9c1d7e3b4'', JStr ''active'']"
  by (simp_all add: partner_store_def createPartner_def Let_def empty_store_def pad_examples
      getProp_add or_else_def del: dec_nat.simps)

lemma example_session_created:
  "kycSessions session_store =
     [''kyc_002'' \<mapsto> fst (createKycSession example_ext partner_store example_insert_session)]"
  by (simp add: session_store_def createKycSession_def Let_def example_partner_created
      pad_examples del: dec_nat.simps)

lemma example_created_fields:
  "getProp (fst (createKycSession example_ext partner_store example_insert_session))
     ''verificationData'' = JNull"
  "map (getProp (fst (createKycSession example_ext partner_store example_insert_session)))
     [''sessionId'', ''partnerId'', ''status'', ''aadhaarVerified'', ''panVerified'',
      ''faceVerified'', ''upiVerified'', ''bankVerified'', ''nameMatchVerified'']
   = [JStr ''kyc_002'', JStr ''partner_001'', JStr ''initiated'', JBool False, JBool False,
      JBool False, JBool False, JBool False, JBool False]"
  by (simp_all add: createKycSession_def Let_def example_partner_created pad_examples
      example_insert_session_def del: dec_nat.simps)

lemma example_otp_run:
  "generate_otp (CfSuccess (JObj [(''ref_id'', JStr ''ref_77'')])) session_store example_otp_body
   = (Success
        [''sessionId'' \<mapsto> JStr ''kyc_002'',
         ''message'' \<mapsto> JStr ''OTP sent successfully to registered mobile number'',
         ''refId'' \<mapsto> JStr ''ref_77'', ''maskedMobile'' \<mapsto> JStr ''XXXX-XXX-XXX''],
      session_store
        \<lparr>kycSessions :=
           [''kyc_002'' \<mapsto> fst (createKycSession example_ext partner_store example_insert_session)
              ++ [''verificationData'' \<mapsto> JObj
                    [(''aadhaarRefId'', JStr ''ref_77''),
                     (''aadhaarNumber'', JStr ''123456789012'')]]]\<rparr>)"
  by (simp add: generate_otp_def Let_def example_otp_body_def getKycSessionById_def
      example_session_created example_created_fields member_of_def or_else_def spread_def
      updateKycSession_def)

lemma example_otp_requested:
  "kycSessions otp_requested_store =
     [''kyc_002'' \<mapsto> fst (createKycSession example_ext partner_store example_insert_session)
        ++ [''verificationData'' \<mapsto> JObj
              [(''aadhaarRefId'', JStr ''ref_77''), (''aadhaarNumber'', JStr ''123456789012'')]]]"
  by (simp add: otp_requested_store_def example_otp_run)

lemma example_aadhaar_run:
  "aadhaar_okyc example_ext (CfSuccess (JObj [(''name'', JStr ''JOHN DOE'')]))
     otp_requested_store example_aadhaar_body
   = (Success
        [''sessionId'' \<mapsto> JStr ''kyc_002'', ''verified'' \<mapsto> JBool True,
         ''aadhaar'' \<mapsto> JObj
            [(''verified'', JBool True), (''name'', JStr ''JOHN DOE''),
             (''number'', JStr ''XXXX-XXXX-9012'')],
         ''completedAt'' \<mapsto> JStr ''2023-11-14T22:13:20.000Z''],
      otp_requested_store
        \<lparr>kycSessions :=
           [''kyc_002'' \<mapsto>
              fst (createKycSession example_ext partner_store example_insert_session)
              ++ [''verificationData'' \<mapsto> JObj
                    [(''aadhaarRefId'', JStr ''ref_77''),
                     (''aadhaarNumber'', JStr ''123456789012'')]]
              ++ [''status'' \<mapsto> JStr ''completed'', ''aadhaarVerified'' \<mapsto> JBool True,
                  ''aadhaarName'' \<mapsto> JStr ''JOHN DOE'', ''verifiedName'' \<mapsto> JStr ''JOHN DOE'',
                  ''verificationData'' \<mapsto> JObj [(''name'', JStr ''JOHN DOE'')]]]\<rparr>)"
  by (simp add: aadhaar_okyc_def Let_def example_aadhaar_body_def getKycSessionById_def
      example_otp_requested getProp_add member_of_def or_else_def updateKycSession_def
      last4_def example_ext_def)

text \<open>
  Claim C5 as stated fails. On an empty store a partner and a KYC session are created,
  an OTP is requested and submitted, and the provider confirms it: the session is then
  \<open>completed\<close> while PAN, face, UPI, bank and name match are all unverified, so no
  required set that names one of them is satisfied.
\<close>

theorem kyc_completed_without_other_methods_counterexample:
  "map_option (\<lambda>partner. map (getProp partner) [''partnerId'', ''apiKey'', ''status''])
     (partners partner_store ''partner_001'')
     = Some [JStr ''partner_001'', JStr ''pk_live_5f2a9c1d7e3b4'', JStr ''active'']
   \<and> map (getProp (fst (createKycSession example_ext partner_store example_insert_session)))
       [''sessionId'', ''partnerId'', ''status'', ''aadhaarVerified'', ''panVerified'',
        ''faceVerified'', ''upiVerified'', ''bankVerified'', ''nameMatchVerified'']
     = [JStr ''kyc_002'', JStr ''partner_001'', JStr ''initiated'', JBool False, JBool False,
        JBool False, JBool False, JBool False, JBool False]
   \<and> fst (generate_otp (CfSuccess (JObj [(''ref_id'', JStr ''ref_77'')])) session_store
           example_otp_body)
     = Success
        [''sessionId'' \<mapsto> JStr ''kyc_002'',
         ''message'' \<mapsto> JStr ''OTP sent successfully to registered mobile number'',
         ''refId'' \<mapsto> JStr ''ref_77'', ''maskedMobile'' \<mapsto> JStr ''XXXX-XXX-XXX'']
   \<and> fst (aadhaar_okyc example_ext (CfSuccess (JObj [(''name'', JStr ''JOHN DOE'')]))
           otp_requested_store example_aadhaar_body)
     = Success
        [''sessionId'' \<mapsto> JStr ''kyc_002'', ''verified'' \<mapsto> JBool True,
         ''aadhaar'' \<mapsto> JObj
            [(''verified'', JBool True), (''name'', JStr ''JOHN DOE''),
             (''number'', JStr ''XXXX-XXXX-9012'')],
         ''completedAt'' \<mapsto> JStr ''2023-11-14T22:13:20.000Z'']
   \<and> map_option
        (\<lambda>session. map (getProp session)
           [''status'', ''aadhaarVerified'', ''panVerified'', ''faceVerified'', ''upiVerified'',
            ''bankVerified'', ''nameMatchVerified''])
        (getKycSessionById aadhaar_submitted_store ''kyc_002'')
     = Some [JStr ''completed'', JBool True, JBool False, JBool False, JBool False,
             JBool False, JBool False]"
proof (intro conjI)
  show "map_option (\<lambda>partner. map (getProp partner) [''partnerId'', ''apiKey'', ''status''])
     (partners partner_store ''partner_001'')
     = Some [JStr ''partner_001'', JStr ''pk_live_5f2a9c1d7e3b4'', JStr ''active'']"
    by (rule example_partner_created)
  show "map (getProp (fst (createKycSession example_ext partner_store example_insert_session)))
       [''sessionId'', ''partnerId'', ''status'', ''aadhaarVerified'', ''panVerified'',
        ''faceVerified'', ''upiVerified'', ''bankVerified'', ''nameMatchVerified'']
     = [JStr ''kyc_002'', JStr ''partner_001'', JStr ''initiated'', JBool False, JBool False,
        JBool False, JBool False, JBool False, JBool False]"
    by (rule example_created_fields)
  show "fst (generate_otp (CfSuccess (JObj [(''ref_id'', JStr ''ref_77'')])) session_store
           example_otp_body)
     = Success
        [''sessionId'' \<mapsto> JStr ''kyc_002'',
         ''message'' \<mapsto> JStr ''OTP sent successfully to registered mobile number'',
         ''refId'' \<mapsto> JStr ''ref_77'', ''maskedMobile'' \<mapsto> JStr ''XXXX-XXX-XXX'']"
    by (simp only: example_otp_run fst_conv)
  show "fst (aadhaar_okyc example_ext (CfSuccess (JObj [(''name'', JStr ''JOHN DOE'')]))
           otp_requested_store example_aadhaar_body)
     = Success
        [''sessionId'' \<mapsto> JStr ''kyc_002'', ''verified'' \<mapsto> JBool True,
         ''aadhaar'' \<mapsto> JObj
            [(''verified'', JBool True), (''name'', JStr ''JOHN DOE''),
             (''number'', JStr ''XXXX-XXXX-9012'')],
         ''completedAt'' \<mapsto> JStr ''2023-11-14T22:13:20.000Z'']"
    by (simp only: example_aadhaar_run fst_conv)
  show "map_option
        (\<lambda>session. map (getProp session)
           [''status'', ''aadhaarVerified'', ''panVerified'', ''faceVerified'', ''upiVerified'',
            ''bankVerified'', ''nameMatchVerified''])
        (getKycSessionById aadhaar_submitted_store ''kyc_002'')
     = Some [JStr ''completed'', JBool True, JBool False, JBool False, JBool False,
             JBool False, JBool False]"
    using example_created_fields(2)
    by (simp add: aadhaar_submitted_store_def example_aadhaar_run getKycSessionById_def
        getProp_add)
qed

text \<open>The theorem on that run, and on a PAN result recorded after it.\<close>

theorem kyc_completed_by_aadhaar_alone_witness:
  "fst (aadhaar_okyc example_ext (CfSuccess (JObj [(''name'', JStr ''JOHN DOE'')]))
          otp_requested_store example_aadhaar_body)
     = Success
        [''sessionId'' \<mapsto> JStr ''kyc_002'', ''verified'' \<mapsto> JBool True,
         ''aadhaar'' \<mapsto> JObj
            [(''verified'', JBool True), (''name'', JStr ''JOHN DOE''),
             (''number'', JStr ''XXXX-XXXX-9012'')],
         ''completedAt'' \<mapsto> JStr ''2023-11-14T22:13:20.000Z'']
   \<and> (\<exists>session updated.
         kycSessions otp_requested_store ''kyc_002'' = Some session
       \<and> kycSessions aadhaar_submitted_store ''kyc_002'' = Some updated
       \<and> updated ''status'' = Some (JStr ''completed'')
       \<and> updated ''aadhaarVerified'' = Some (JBool True)
       \<and> updated (verified_flag Pan) = session (verified_flag Pan))
   \<and> (\<exists>recorded st''.
         updateKycVerificationStatus aadhaar_submitted_store ''kyc_002'' ''pan'' False JUndefined
           = (Some recorded, st'')
       \<and> recorded ''status'' = Some (JStr ''completed''))"
proof -
  let ?data = "[''sessionId'' \<mapsto> JStr ''kyc_002'', ''verified'' \<mapsto> JBool True,
         ''aadhaar'' \<mapsto> JObj
            [(''verified'', JBool True), (''name'', JStr ''JOHN DOE''),
             (''number'', JStr ''XXXX-XXXX-9012'')],
         ''completedAt'' \<mapsto> JStr ''2023-11-14T22:13:20.000Z'']"
  have run: "aadhaar_okyc example_ext (CfSuccess (JObj [(''name'', JStr ''JOHN DOE'')]))
      otp_requested_store example_aadhaar_body = (Success ?data, aadhaar_submitted_store)"
    unfolding aadhaar_submitted_store_def example_aadhaar_run by simp
  have sid: "getProp example_aadhaar_body ''sessionId'' = JStr ''kyc_002''"
    by (simp add: example_aadhaar_body_def)
  from kyc_completed_by_aadhaar_alone [of example_ext
      "CfSuccess (JObj [(''name'', JStr ''JOHN DOE'')])" otp_requested_store
      example_aadhaar_body ?data aadhaar_submitted_store] run
  obtain sid' session updated where r:
    "getProp example_aadhaar_body ''sessionId'' = JStr sid'"
    "kycSessions otp_requested_store sid' = Some session"
    "kycSessions aadhaar_submitted_store sid' = Some updated"
    "updated ''status'' = Some (JStr ''completed'')"
    "updated ''aadhaarVerified'' = Some (JBool True)"
    "\<forall>m. m \<noteq> Aadhaar \<longrightarrow> updated (verified_flag m) = session (verified_flag m)"
    by blast
  from r(1) sid have sid': "sid' = ''kyc_002''"
    by simp
  have pan: "updated (verified_flag Pan) = session (verified_flag Pan)"
    by (rule r(6) [rule_format]) simp
  have first: "\<exists>session updated.
         kycSessions otp_requested_store ''kyc_002'' = Some session
       \<and> kycSessions aadhaar_submitted_store ''kyc_002'' = Some updated
       \<and> updated ''status'' = Some (JStr ''completed'')
       \<and> updated ''aadhaarVerified'' = Some (JBool True)
       \<and> updated (verified_flag Pan) = session (verified_flag Pan)"
    using r(2-5) pan unfolding sid'
    by (intro exI [of _ session] exI [of _ updated] conjI)
  obtain recorded st'' where call:
    "updateKycVerificationStatus aadhaar_submitted_store ''kyc_002'' ''pan'' False JUndefined
       = (Some recorded, st'')"
    using r(3) unfolding sid' by (simp add: updateKycVerificationStatus_found)
  from kyc_completed_by_aadhaar_alone [where store = aadhaar_submitted_store
      and sessionId = "''kyc_002''" and vt = "''pan''" and verified = False
      and name = JUndefined and recorded = recorded and st'' = st''] call r(3) r(4)
  have "recorded ''status'' = Some (JStr ''completed'')"
    unfolding sid' by auto
  with call have second: "\<exists>recorded st''.
         updateKycVerificationStatus aadhaar_submitted_store ''kyc_002'' ''pan'' False JUndefined
           = (Some recorded, st'')
       \<and> recorded ''status'' = Some (JStr ''completed'')"
    by blast
  show ?thesis
    using run first second by simp
qed

end
